theory Spec2Isabelle
  imports Main "HOL-Library.AList" "HOL-Library.Sublist" "HOL-Library.Word"
begin

section \<open>Python values and the operations WormCSV applies to them\<close>

text \<open>
  This theory follows \<^verbatim>\<open>python2/WormCSV.py\<close>, the documented source of the data layer
  of WormBait: \<open>CuffLinkDatabase\<close> reads the local expression file, \<open>WormData\<close>
  collects the fields of one gene from the WormBase API, \<open>OutputCSV\<close> writes the
  collected records. Line numbers are those of that file.
  \<^verbatim>\<open>python3/WormCSV.py\<close> is the 2to3 conversion of an earlier revision of the same
  module; where it differs from python2 it has a section of its own below.

  The values that flow through the module are the results of \<^verbatim>\<open>r.json()\<close> (any
  decoded JSON document), the lists the module builds itself, and \<^verbatim>\<open>None\<close>. A
  dictionary is kept as an association list that is read with \<open>map_of\<close>; a string,
  byte string or unicode, is a list of characters; a float is its IEEE 754 bit pattern,
  of which only the truth value is ever observed.
\<close>

datatype pyval =
    PNone
  | PBool bool
  | PInt int
  | PFloat "64 word"
  | PStr string
  | PList "pyval list"
  | PDict "(string \<times> pyval) list"

datatype error =
    TypeError
  | KeyError
  | IndexError
  | AttributeError
  | ValueError
  | StopIteration
  | RequestException
  | IOError

text \<open>Truth value of an object, as \<^verbatim>\<open>if x:\<close> and \<^verbatim>\<open>x and y\<close> test it.\<close>

fun truthy :: "pyval \<Rightarrow> bool" where
  "truthy PNone = False"
| "truthy (PBool b) = b"
| "truthy (PInt i) = (i \<noteq> 0)"
| "truthy (PFloat w) = (w \<noteq> 0 \<and> w \<noteq> 0x8000000000000000)"
| "truthy (PStr s) = (s \<noteq> [])"
| "truthy (PList xs) = (xs \<noteq> [])"
| "truthy (PDict kvs) = (kvs \<noteq> [])"

text \<open>
  \<^verbatim>\<open>key in x\<close> for a string key: a key test on a dict, an element test on a list, a
  substring test on a string, and a TypeError on everything else.
\<close>

fun py_contains :: "string \<Rightarrow> pyval \<Rightarrow> error + bool" where
  "py_contains k (PDict kvs) = Inr (k \<in> set (map fst kvs))"
| "py_contains k (PList xs) = Inr (PStr k \<in> set xs)"
| "py_contains k (PStr s) = Inr (sublist k s)"
| "py_contains k _ = Inl TypeError"

text \<open>
  \<^verbatim>\<open>x[key]\<close> for a string key: a dict gives the value or raises KeyError; a list or
  a string cannot be indexed by a string, and the other objects cannot be indexed at
  all (TypeError).
\<close>

fun py_getitem :: "pyval \<Rightarrow> string \<Rightarrow> error + pyval" where
  "py_getitem (PDict kvs) k = (case map_of kvs k of None \<Rightarrow> Inl KeyError | Some v \<Rightarrow> Inr v)"
| "py_getitem _ k = Inl TypeError"

text \<open>
  The items a \<^verbatim>\<open>for\<close> loop visits. A dict yields its keys (Python 2 fixes no order
  for them; the order of the association list stands for it), a string yields its
  characters.
\<close>

fun py_iter :: "pyval \<Rightarrow> error + pyval list" where
  "py_iter (PList xs) = Inr xs"
| "py_iter (PDict kvs) = Inr (map PStr (remdups (map fst kvs)))"
| "py_iter (PStr s) = Inr (map (\<lambda>c. PStr [c]) s)"
| "py_iter _ = Inl TypeError"

fun py_len :: "pyval \<Rightarrow> error + nat" where
  "py_len (PList xs) = Inr (length xs)"
| "py_len (PDict kvs) = Inr (length (remdups (map fst kvs)))"
| "py_len (PStr s) = Inr (length s)"
| "py_len _ = Inl TypeError"

text \<open>\<^verbatim>\<open>sep.join(xs)\<close>: every item must be a string.\<close>

fun str_items :: "pyval list \<Rightarrow> error + string list" where
  "str_items [] = Inr []"
| "str_items (PStr s # xs) = (case str_items xs of Inl e \<Rightarrow> Inl e | Inr ss \<Rightarrow> Inr (s # ss))"
| "str_items (_ # xs) = Inl TypeError"

fun join :: "string \<Rightarrow> string list \<Rightarrow> string" where
  "join sep [] = []"
| "join sep (s # ss) = foldl (\<lambda>acc t. acc @ sep @ t) s ss"

definition ebind :: "error + 'a \<Rightarrow> ('a \<Rightarrow> error + 'b) \<Rightarrow> error + 'b" where
  "ebind r f = (case r of Inl e \<Rightarrow> Inl e | Inr x \<Rightarrow> f x)"

definition py_join :: "string \<Rightarrow> pyval \<Rightarrow> error + string" where
  "py_join sep v = ebind (py_iter v) (\<lambda>xs. ebind (str_items xs) (\<lambda>ss. Inr (join sep ss)))"

text \<open>\<^verbatim>\<open>a and b\<close> in a condition: \<open>b\<close> is evaluated, and may raise, only when \<open>a\<close> holds.\<close>

definition py_and :: "error + bool \<Rightarrow> error + bool \<Rightarrow> error + bool" where
  "py_and a b = ebind a (\<lambda>x. if x then b else Inr False)"

section \<open>Statements: state passing with exceptions\<close>

text \<open>
  A statement maps the state to an outcome and the state it leaves behind; \<open>Inl e\<close> is
  an exception that propagates, after which no further statement runs.
\<close>

type_synonym ('s, 'a) prog = "'s \<Rightarrow> (error + 'a) \<times> 's"

definition ret :: "'a \<Rightarrow> ('s, 'a) prog" where
  "ret x = (\<lambda>s. (Inr x, s))"

definition raise :: "error \<Rightarrow> ('s, 'a) prog" where
  "raise e = (\<lambda>s. (Inl e, s))"

definition lift :: "error + 'a \<Rightarrow> ('s, 'a) prog" where
  "lift r = (\<lambda>s. (r, s))"

definition bind :: "('s, 'a) prog \<Rightarrow> ('a \<Rightarrow> ('s, 'b) prog) \<Rightarrow> ('s, 'b) prog" where
  "bind m f = (\<lambda>s. case m s of (Inl e, s') \<Rightarrow> (Inl e, s') | (Inr x, s') \<Rightarrow> f x s')"

fun for_each :: "'a list \<Rightarrow> ('a \<Rightarrow> ('s, unit) prog) \<Rightarrow> ('s, unit) prog" where
  "for_each [] body = ret ()"
| "for_each (x # xs) body = bind (body x) (\<lambda>_. for_each xs body)"

section \<open>CuffLinkDatabase\<close>

text \<open>
  \<^verbatim>\<open>csv.reader\<close> hands the constructor the rows of the file, each a list of cells;
  \<open>self.data\<close> maps a row's first cell to \<^verbatim>\<open>dict(zip(headers, row))\<close>, in which
  a later pair overrides an earlier one with the same header name. Line 36 raises
  StopIteration when the reader has no row to give; line 39 raises IndexError on a row
  without cells (a blank line).
\<close>

type_synonym cufflink = "string \<rightharpoonup> (string \<rightharpoonup> string)"

definition dict_zip :: "string list \<Rightarrow> string list \<Rightarrow> (string \<rightharpoonup> string)" where
  "dict_zip headers row = map_of (rev (zip headers row))"

fun read_rows :: "string list \<Rightarrow> string list list \<Rightarrow> cufflink \<Rightarrow> error + cufflink" where
  "read_rows headers [] d = Inr d"
| "read_rows headers ([] # rows) d = Inl IndexError"
| "read_rows headers ((c # cs) # rows) d =
     read_rows headers rows (d(c \<mapsto> dict_zip headers (c # cs)))"

definition CuffLinkDatabase_init :: "string list list \<Rightarrow> error + cufflink" where
  "CuffLinkDatabase_init file =
     (case file of
        [] \<Rightarrow> Inl StopIteration
      | headers # rows \<Rightarrow> read_rows headers rows Map.empty)"

definition CuffLinkDatabase_get :: "cufflink \<Rightarrow> string \<Rightarrow> (string \<rightharpoonup> string) option" where
  "CuffLinkDatabase_get d dbId = (if dbId \<in> dom d then d dbId else None)"

section \<open>WormData\<close>

text \<open>
  The fields of the object: \<open>self.data\<close> is a dict, kept as an association list that
  \<open>AList.update\<close> writes and \<open>map_of\<close> reads; \<open>self.database\<close> is only read and
  is passed to \<open>populate\<close> as an argument. With them goes \<open>requests\<close>, the URLs
  handed to \<^verbatim>\<open>requests.get\<close> so far, which the Python keeps nowhere but which is what
  the network sees.
\<close>

record wormdata =
  geneID :: string
  dbId :: "string option"
  data :: "(string \<times> pyval) list"
  requests :: "string list"

definition GENE_BASE :: string where
  "GENE_BASE = ''http://api.wormbase.org/rest/field/gene''"

definition PROTEIN_BASE :: string where
  "PROTEIN_BASE = ''http://api.wormbase.org/rest/field/protein''"

text \<open>
  The network: what a GET of a URL brings back. \<open>None\<close> is a request that raises
  (no connection, timeout, invalid URL); \<open>NotJson\<close> is a response whose body
  \<^verbatim>\<open>r.json()\<close> cannot decode.
\<close>

datatype response = NotJson | Json pyval

type_synonym net = "string \<Rightarrow> response option"

definition set_item :: "string \<Rightarrow> pyval \<Rightarrow> (wormdata, unit) prog" where
  "set_item k v = (\<lambda>self. (Inr (), self\<lparr>data := AList.update k v (data self)\<rparr>))"

definition get_item :: "string \<Rightarrow> (wormdata, pyval) prog" where
  "get_item k =
     (\<lambda>self. case map_of (data self) k of
                None \<Rightarrow> (Inl KeyError, self)
              | Some v \<Rightarrow> (Inr v, self))"

text \<open>\<^verbatim>\<open>self.data[k].append(v)\<close>\<close>

definition append_item :: "string \<Rightarrow> pyval \<Rightarrow> (wormdata, unit) prog" where
  "append_item k v =
     bind (get_item k) (\<lambda>l. case l of PList xs \<Rightarrow> set_item k (PList (xs @ [v]))
                                    | _ \<Rightarrow> raise AttributeError)"

subsection \<open>fetch\<close>

text \<open>\<^verbatim>\<open>baseUrl + '/' + id + '/' + datum\<close>: concatenation with a non-string raises.\<close>

definition url_of :: "string \<Rightarrow> pyval \<Rightarrow> string \<Rightarrow> error + string" where
  "url_of baseUrl ident datum =
     (case ident of PStr s \<Rightarrow> Inr (baseUrl @ ''/'' @ s @ ''/'' @ datum) | _ \<Rightarrow> Inl TypeError)"

definition requests_get :: "net \<Rightarrow> string \<Rightarrow> (wormdata, response) prog" where
  "requests_get nw url =
     (\<lambda>self. case nw url of
                None \<Rightarrow> (Inl RequestException, self\<lparr>requests := requests self @ [url]\<rparr>)
              | Some r \<Rightarrow> (Inr r, self\<lparr>requests := requests self @ [url]\<rparr>))"

text \<open>
  Lines 327-330:
  \<^verbatim>\<open>if datum in j and 'data' in j[datum]: return j[datum]['data']  else: return None\<close>
\<close>

definition extract_data :: "pyval \<Rightarrow> string \<Rightarrow> error + pyval" where
  "extract_data j datum =
     ebind (py_and (py_contains datum j) (ebind (py_getitem j datum) (py_contains ''data'')))
       (\<lambda>c. if c then ebind (py_getitem j datum) (\<lambda>jd. py_getitem jd ''data'') else Inr PNone)"

text \<open>Lines 318-330: the bare \<^verbatim>\<open>except\<close> around \<^verbatim>\<open>r.json()\<close>, then the extraction.\<close>

definition decode :: "response \<Rightarrow> string \<Rightarrow> error + pyval" where
  "decode r datum = (case r of NotJson \<Rightarrow> Inr PNone | Json j \<Rightarrow> extract_data j datum)"

text \<open>Line 314 issues the request before the \<^verbatim>\<open>try\<close> is entered.\<close>

definition fetch :: "net \<Rightarrow> string \<Rightarrow> pyval \<Rightarrow> string \<Rightarrow> (wormdata, pyval) prog" where
  "fetch nw baseUrl ident datum =
     bind (lift (url_of baseUrl ident datum)) (\<lambda>url.
     bind (requests_get nw url) (\<lambda>r.
     lift (decode r datum)))"

subsection \<open>populate\<close>

text \<open>\<^verbatim>\<open>self.database.get(self.dbId)['log2(fold_change)']\<close>\<close>

definition fold_change :: "cufflink \<Rightarrow> string \<Rightarrow> error + pyval" where
  "fold_change database d =
     (case CuffLinkDatabase_get database d of
        None \<Rightarrow> Inl TypeError
      | Some row \<Rightarrow> (case row ''log2(fold_change)'' of
                      None \<Rightarrow> Inl KeyError
                    | Some v \<Rightarrow> Inr (PStr v)))"

text \<open>Lines 183-184: the value is collected only if a DB_ID has been provided.\<close>

definition up_down_block :: "cufflink \<Rightarrow> string option \<Rightarrow> (wormdata, unit) prog" where
  "up_down_block database d =
     (case d of
        None \<Rightarrow> ret ()
      | Some i \<Rightarrow> if i \<noteq> [] then bind (lift (fold_change database i)) (set_item ''up/down'')
                 else ret ())"

text \<open>Lines 189-190.\<close>

definition sequence_block :: "net \<Rightarrow> string \<Rightarrow> (wormdata, unit) prog" where
  "sequence_block nw g =
     bind (fetch nw GENE_BASE (PStr g) ''sequence_name'') (set_item ''sequence_name'')"

text \<open>Lines 192-193.\<close>

definition description_block :: "net \<Rightarrow> string \<Rightarrow> (wormdata, unit) prog" where
  "description_block nw g =
     bind (fetch nw GENE_BASE (PStr g) ''concise_description'') (\<lambda>description.
     bind (lift (py_getitem description ''text'')) (set_item ''description''))"

text \<open>Lines 199-205.\<close>

definition has_protein_id :: "pyval \<Rightarrow> error + bool" where
  "has_protein_id item =
     py_and (Inr (truthy item))
       (py_and (py_contains ''protein'' item)
               (ebind (py_getitem item ''protein'') (py_contains ''id'')))"

definition protein_id_of :: "pyval \<Rightarrow> error + pyval" where
  "protein_id_of item = ebind (py_getitem item ''protein'') (\<lambda>p. py_getitem p ''id'')"

definition gene_models_block :: "net \<Rightarrow> string \<Rightarrow> (wormdata, unit) prog" where
  "gene_models_block nw g =
     bind (fetch nw GENE_BASE (PStr g) ''gene_models'') (\<lambda>geneModels.
     bind (set_item ''protein_id'' (PList [])) (\<lambda>_.
     bind (lift (py_and (Inr (truthy geneModels)) (py_contains ''table'' geneModels))) (\<lambda>c.
       if c then
         bind (lift (ebind (py_getitem geneModels ''table'') py_iter)) (\<lambda>items.
         for_each items (\<lambda>item.
           bind (lift (has_protein_id item)) (\<lambda>c'.
             if c' then bind (lift (protein_id_of item)) (append_item ''protein_id'')
             else ret ())))
       else ret ())))"

text \<open>Lines 208-210.\<close>

definition gene_class_block :: "net \<Rightarrow> string \<Rightarrow> (wormdata, unit) prog" where
  "gene_class_block nw g =
     bind (fetch nw GENE_BASE (PStr g) ''gene_class'') (\<lambda>geneClass.
     bind (lift (py_and (Inr (truthy geneClass))
                  (py_and (py_contains ''tag'' geneClass)
                          (ebind (py_getitem geneClass ''tag'') (py_contains ''label''))))) (\<lambda>c.
       if c then
         bind (lift (ebind (py_getitem geneClass ''tag'') (\<lambda>t. py_getitem t ''label'')))
              (set_item ''gene_class'')
       else ret ()))"

text \<open>Lines 272-286.\<close>

definition joinIfExtant :: "string \<Rightarrow> (wormdata, unit) prog" where
  "joinIfExtant datum =
     bind (get_item datum) (\<lambda>v.
     bind (lift (py_len v)) (\<lambda>n.
       if n = 0 then set_item datum PNone
       else bind (get_item datum) (\<lambda>v'.
            bind (lift (py_join '', '' v')) (\<lambda>s. set_item datum (PStr s)))))"

text \<open>
  Lines 212-220, 222-228 and 230-236: the same statements for \<open>human_orthologs\<close>,
  \<open>nematode_orthologs\<close> and \<open>other_orthologs\<close>, here with the field name as \<open>k\<close>.
\<close>

definition ortholog_label :: "pyval \<Rightarrow> error + pyval" where
  "ortholog_label item = ebind (py_getitem item ''ortholog'') (\<lambda>ortholog. py_getitem ortholog ''label'')"

definition orthologs_block :: "net \<Rightarrow> string \<Rightarrow> string \<Rightarrow> (wormdata, unit) prog" where
  "orthologs_block nw g k =
     bind (fetch nw GENE_BASE (PStr g) k) (\<lambda>orthologs.
     bind (set_item k (PList [])) (\<lambda>_.
     bind (if truthy orthologs then
             bind (lift (py_iter orthologs)) (\<lambda>items.
             for_each items (\<lambda>item. bind (lift (ortholog_label item)) (append_item k)))
           else ret ()) (\<lambda>_.
     joinIfExtant k)))"

text \<open>
  Lines 238-266. \<^verbatim>\<open>isinstance(x, str)\<close> holds of strings only; the value it is
  asked about at line 251 is the list that line 201 created, since \<open>protein_id\<close> is
  joined only at line 269.
\<close>

definition is_str :: "pyval \<Rightarrow> bool" where
  "is_str v = (case v of PStr _ \<Rightarrow> True | _ \<Rightarrow> False)"

definition best_human_match :: "net \<Rightarrow> pyval \<Rightarrow> (wormdata, unit) prog" where
  "best_human_match nw proteinID =
     bind (fetch nw PROTEIN_BASE proteinID ''best_human_match'') (\<lambda>bestHumanMatch.
     bind (lift (py_and (Inr (truthy bestHumanMatch))
                        (py_contains ''description'' bestHumanMatch))) (\<lambda>c.
       if c then
         bind (lift (py_getitem bestHumanMatch ''description''))
              (append_item ''best_human_ortholog'')
       else ret ()))"

definition best_human_block :: "net \<Rightarrow> (wormdata, unit) prog" where
  "best_human_block nw =
     bind (set_item ''best_human_ortholog'' (PList [])) (\<lambda>_.
     bind (get_item ''protein_id'') (\<lambda>protein_id.
       if truthy protein_id \<and> \<not> is_str protein_id then
         bind (lift (py_iter protein_id)) (\<lambda>proteinIDs.
         for_each proteinIDs (best_human_match nw))
       else if truthy protein_id then best_human_match nw protein_id
       else ret ()))"

definition populate :: "net \<Rightarrow> cufflink \<Rightarrow> (wormdata, unit) prog" where
  "populate nw database =
     (\<lambda>self.
        if geneID self \<noteq> [] \<and> prefix ''WBGene'' (geneID self) then
          (bind (up_down_block database (dbId self)) (\<lambda>_.
           bind (sequence_block nw (geneID self)) (\<lambda>_.
           bind (description_block nw (geneID self)) (\<lambda>_.
           bind (gene_models_block nw (geneID self)) (\<lambda>_.
           bind (gene_class_block nw (geneID self)) (\<lambda>_.
           bind (orthologs_block nw (geneID self) ''human_orthologs'') (\<lambda>_.
           bind (orthologs_block nw (geneID self) ''nematode_orthologs'') (\<lambda>_.
           bind (orthologs_block nw (geneID self) ''other_orthologs'') (\<lambda>_.
           bind (best_human_block nw) (\<lambda>_.
           bind (joinIfExtant ''protein_id'') (\<lambda>_.
           joinIfExtant ''best_human_ortholog''))))))))))) self
        else (Inr (), self))"

text \<open>The constructor (lines 141-146): the fields, then \<open>populate\<close>.\<close>

definition WormData_init :: "net \<Rightarrow> string option \<Rightarrow> string \<Rightarrow> cufflink \<Rightarrow> (error + unit) \<times> wormdata" where
  "WormData_init nw d g database =
     populate nw database
       \<lparr>geneID = g, dbId = d, data = [(''gene_id'', PStr g)], requests = []\<rparr>"

definition describe :: "wormdata \<Rightarrow> (string \<times> pyval) list" where
  "describe self = data self"

section \<open>OutputCSV\<close>

text \<open>
  The header list is an object the caller shares with the writer, so the lists live in
  a store and the writer holds a reference. \<open>files\<close> keeps, for each path, the rows
  handed to the csv writer since the file was opened.
\<close>

record outputcsv =
  path :: string
  headers :: nat

record world =
  objects :: "nat \<Rightarrow> string list"
  files :: "string \<rightharpoonup> pyval list list"

definition OutputCSV_init :: "string \<Rightarrow> nat \<Rightarrow> outputcsv" where
  "OutputCSV_init p h = \<lparr>path = p, headers = h\<rparr>"

text \<open>\<^verbatim>\<open>x.startswith(p)\<close> is a method of strings only.\<close>

definition startswith :: "pyval \<Rightarrow> string \<Rightarrow> error + bool" where
  "startswith v p = (case v of PStr s \<Rightarrow> Inr (prefix p s) | _ \<Rightarrow> Inl AttributeError)"

text \<open>Lines 77-80; the second argument is \<open>exclusivelyWBIds\<close>.\<close>

fun scan_ids :: "wormdata list \<Rightarrow> bool \<Rightarrow> error + bool" where
  "scan_ids [] exclusivelyWBIds = Inr exclusivelyWBIds"
| "scan_ids (w # ws) exclusivelyWBIds =
     ebind (py_and (Inr exclusivelyWBIds)
             (py_and (Inr (truthy (PDict (describe w))))
               (py_and (py_contains ''db_id'' (PDict (describe w)))
                 (ebind (py_getitem (PDict (describe w)) ''db_id'') (\<lambda>v. startswith v ''XLOC'')))))
       (\<lambda>c. scan_ids ws (if c then False else exclusivelyWBIds))"

text \<open>\<^verbatim>\<open>list.remove(x)\<close> removes the first \<open>x\<close> and raises ValueError when there is none.\<close>

definition list_remove :: "nat \<Rightarrow> string \<Rightarrow> (world, unit) prog" where
  "list_remove r x =
     (\<lambda>s. if x \<in> set (objects s r)
          then (Inr (), s\<lparr>objects := (objects s)(r := remove1 x (objects s r))\<rparr>)
          else (Inl ValueError, s))"

text \<open>Opening for writing empties the file, or fails where the path cannot be written.\<close>

definition open_w :: "(string \<Rightarrow> bool) \<Rightarrow> string \<Rightarrow> (world, unit) prog" where
  "open_w writable p =
     (\<lambda>s. if writable p then (Inr (), s\<lparr>files := (files s)(p \<mapsto> [])\<rparr>) else (Inl IOError, s))"

definition write_row :: "string \<Rightarrow> pyval list \<Rightarrow> (world, unit) prog" where
  "write_row p row =
     (\<lambda>s. (Inr (),
           s\<lparr>files := (files s)(p \<mapsto> (case files s p of None \<Rightarrow> [] | Some rows \<Rightarrow> rows)
                                        @ [row])\<rparr>))"

text \<open>
  \<^verbatim>\<open>csv.DictWriter\<close> with its defaults: \<open>writeheader\<close> writes the field names;
  \<open>writerow\<close> raises ValueError on a key that is no field name and writes the empty
  string for a field the row lacks.
\<close>

definition writeheader :: "outputcsv \<Rightarrow> (world, unit) prog" where
  "writeheader self = (\<lambda>s. write_row (path self) (map PStr (objects s (headers self))) s)"

definition writerow :: "outputcsv \<Rightarrow> (string \<times> pyval) list \<Rightarrow> (world, unit) prog" where
  "writerow self rowdict =
     (\<lambda>s. if \<exists>k \<in> set (map fst rowdict). k \<notin> set (objects s (headers self))
          then (Inl ValueError, s)
          else write_row (path self)
                 (map (\<lambda>f. case map_of rowdict f of None \<Rightarrow> PStr [] | Some v \<Rightarrow> v)
                      (objects s (headers self))) s)"

text \<open>
  Lines 74-101. The two branches on \<^verbatim>\<open>sys.version_info\<close> differ only in the mode
  the file is opened with; \<open>writable\<close> says which paths can be opened for writing.
\<close>

definition OutputCSV_write ::
  "(string \<Rightarrow> bool) \<Rightarrow> outputcsv \<Rightarrow> wormdata list \<Rightarrow> (world, unit) prog" where
  "OutputCSV_write writable self listOfWormDatas =
     bind (lift (scan_ids listOfWormDatas True)) (\<lambda>exclusivelyWBIds.
     bind (if exclusivelyWBIds
           then bind (list_remove (headers self) ''db_id'') (\<lambda>_.
                list_remove (headers self) ''up/down'')
           else ret ()) (\<lambda>_.
     bind (open_w writable (path self)) (\<lambda>_.
     bind (writeheader self) (\<lambda>_.
     for_each listOfWormDatas (\<lambda>wormData. writerow self (describe wormData))))))"

section \<open>The python3 conversion\<close>

text \<open>
  \<^verbatim>\<open>python3/WormCSV.py\<close> has the same classes. Its \<open>CuffLinkDatabase\<close> and its
  \<open>fetch\<close> are those of python2, statement for statement, and so are the lookups of
  \<open>sequence_name\<close> and \<open>concise_description\<close> (lines 57-61) and of the three
  ortholog fields (lines 78-109, with the body of \<open>joinIfExtant\<close> written out after
  each): for these the definitions above stand. What differs is defined here; line
  numbers in this section are those of \<^verbatim>\<open>python3/WormCSV.py\<close>.
\<close>

text \<open>
  Line 55: the store is consulted whatever the identifiers are. An identifier that is
  \<open>None\<close> is no key of the store, so \<open>get\<close> returns \<open>None\<close> and the subscript
  raises.
\<close>

definition up_down_block3 :: "cufflink \<Rightarrow> string option \<Rightarrow> (wormdata, unit) prog" where
  "up_down_block3 database d =
     bind (lift (case d of None \<Rightarrow> Inl TypeError | Some i \<Rightarrow> fold_change database i))
          (set_item ''up/down'')"

text \<open>Lines 63-72: the table is read without a guard, and the identifiers are joined at once.\<close>

definition gene_models_block3 :: "net \<Rightarrow> string \<Rightarrow> (wormdata, unit) prog" where
  "gene_models_block3 nw g =
     bind (fetch nw GENE_BASE (PStr g) ''gene_models'') (\<lambda>geneModels.
     bind (set_item ''protein_id'' (PList [])) (\<lambda>_.
     bind (lift (ebind (py_getitem geneModels ''table'') py_iter)) (\<lambda>items.
     bind (for_each items (\<lambda>item.
             bind (lift (has_protein_id item)) (\<lambda>c.
               if c then bind (lift (protein_id_of item)) (append_item ''protein_id'')
               else ret ()))) (\<lambda>_.
     joinIfExtant ''protein_id''))))"

text \<open>Lines 75-76.\<close>

definition gene_class_block3 :: "net \<Rightarrow> string \<Rightarrow> (wormdata, unit) prog" where
  "gene_class_block3 nw g =
     bind (fetch nw GENE_BASE (PStr g) ''gene_class'') (set_item ''gene_class'')"

text \<open>
  Lines 111-128. \<^verbatim>\<open>hasattr(x, '__len__')\<close> holds of strings, lists and dicts. By now
  \<open>protein_id\<close> is the joined string or \<open>None\<close>, so \<open>isSingular\<close> is false and
  the loop runs over the string, character by character, or raises on \<open>None\<close>.
\<close>

definition has_len :: "pyval \<Rightarrow> bool" where
  "has_len v = (case v of PStr s \<Rightarrow> True | PList xs \<Rightarrow> True | PDict kvs \<Rightarrow> True | _ \<Rightarrow> False)"

definition best_human_block3 :: "net \<Rightarrow> (wormdata, unit) prog" where
  "best_human_block3 nw =
     bind (set_item ''best_human_ortholog'' (PList [])) (\<lambda>_.
     bind (get_item ''protein_id'') (\<lambda>protein_id.
     bind (if \<not> (has_len protein_id \<and> \<not> is_str protein_id) then
             bind (lift (py_iter protein_id)) (\<lambda>proteinIDs.
             for_each proteinIDs (best_human_match nw))
           else best_human_match nw protein_id) (\<lambda>_.
     joinIfExtant ''best_human_ortholog'')))"

text \<open>Lines 54-128: no guard on the gene identifier.\<close>

definition populate3 :: "net \<Rightarrow> cufflink \<Rightarrow> (wormdata, unit) prog" where
  "populate3 nw database =
     (\<lambda>self.
        (bind (up_down_block3 database (dbId self)) (\<lambda>_.
         bind (sequence_block nw (geneID self)) (\<lambda>_.
         bind (description_block nw (geneID self)) (\<lambda>_.
         bind (gene_models_block3 nw (geneID self)) (\<lambda>_.
         bind (gene_class_block3 nw (geneID self)) (\<lambda>_.
         bind (orthologs_block nw (geneID self) ''human_orthologs'') (\<lambda>_.
         bind (orthologs_block nw (geneID self) ''nematode_orthologs'') (\<lambda>_.
         bind (orthologs_block nw (geneID self) ''other_orthologs'') (\<lambda>_.
         best_human_block3 nw))))))))) self)"

definition WormData_init3 :: "net \<Rightarrow> string option \<Rightarrow> string \<Rightarrow> cufflink \<Rightarrow> (error + unit) \<times> wormdata" where
  "WormData_init3 nw d g database =
     populate3 nw database
       \<lparr>geneID = g, dbId = d, data = [(''gene_id'', PStr g)], requests = []\<rparr>"

text \<open>
  Lines 32-37: the header is left as it is. The file is opened in binary mode, and
  under Python 3 the csv writer cannot hand its text to such a file: the first row,
  written by \<open>writeheader\<close>, raises TypeError (as lines 86-89 of
  \<^verbatim>\<open>python2/WormCSV.py\<close> note).
\<close>

definition OutputCSV_write3 ::
  "(string \<Rightarrow> bool) \<Rightarrow> outputcsv \<Rightarrow> wormdata list \<Rightarrow> (world, unit) prog" where
  "OutputCSV_write3 writable self listOfWormDatas =
     bind (open_w writable (path self)) (\<lambda>_. raise TypeError)"

section \<open>Notions for stating the properties\<close>

text \<open>
  The value \<open>fetch\<close> returns for a string identifier, without the record of the
  request.
\<close>

definition lookup :: "net \<Rightarrow> string \<Rightarrow> string \<Rightarrow> string \<Rightarrow> error + pyval" where
  "lookup nw baseUrl i datum =
     (case nw (baseUrl @ ''/'' @ i @ ''/'' @ datum) of
        None \<Rightarrow> Inl RequestException
      | Some r \<Rightarrow> decode r datum)"

text \<open>
  A multi-valued field: the entries joined by \<open>", "\<close> in their order, or
  \<open>None\<close> when there is none.
\<close>

fun comma_joined :: "string list \<Rightarrow> string" where
  "comma_joined [] = []"
| "comma_joined [x] = x"
| "comma_joined (x # y # ys) = x @ '', '' @ comma_joined (y # ys)"

definition flatten :: "string list \<Rightarrow> pyval" where
  "flatten xs = (if xs = [] then PNone else PStr (comma_joined xs))"

text \<open>
  \<open>collected f items xs\<close>: \<open>f\<close> extracts a string from every item, and \<open>xs\<close> are
  these strings in the order of the items.
\<close>

definition collected :: "(pyval \<Rightarrow> error + pyval) \<Rightarrow> pyval list \<Rightarrow> string list \<Rightarrow> bool" where
  "collected f items xs = (map f items = map (\<lambda>x. Inr (PStr x)) xs)"

text \<open>The labels an ortholog lookup lists, and the protein identifiers of a gene_models table.\<close>

definition ortholog_entries :: "pyval \<Rightarrow> string list \<Rightarrow> bool" where
  "ortholog_entries r xs =
     (if truthy r
      then (case py_iter r of Inl e \<Rightarrow> False | Inr items \<Rightarrow> collected ortholog_label items xs)
      else xs = [])"

definition protein_entries :: "pyval \<Rightarrow> string list \<Rightarrow> bool" where
  "protein_entries gm ps =
     (if truthy gm \<and> py_contains ''table'' gm = Inr True
      then (case ebind (py_getitem gm ''table'') py_iter of
              Inl e \<Rightarrow> False
            | Inr items \<Rightarrow>
                list_all (\<lambda>item. has_protein_id item = Inr True \<or> has_protein_id item = Inr False) items \<and>
                collected protein_id_of (filter (\<lambda>item. has_protein_id item = Inr True) items) ps)
      else ps = [])"

text \<open>
  What one best_human_match result contributes (its description, if it has one), and
  the contributions of a list of proteins, one lookup each, in order.
\<close>

definition description_of :: "pyval \<Rightarrow> error + pyval list" where
  "description_of m =
     ebind (py_and (Inr (truthy m)) (py_contains ''description'' m)) (\<lambda>c.
       if c then ebind (py_getitem m ''description'') (\<lambda>d. Inr [d]) else Inr [])"

fun best_matches :: "net \<Rightarrow> string list \<Rightarrow> error + pyval list" where
  "best_matches nw [] = Inr []"
| "best_matches nw (p # ps) =
     ebind (lookup nw PROTEIN_BASE p ''best_human_match'') (\<lambda>m.
     ebind (description_of m) (\<lambda>c.
     ebind (best_matches nw ps) (\<lambda>cs. Inr (c @ cs))))"

text \<open>A scalar: a string or \<open>None\<close>.\<close>

definition scalar :: "pyval \<Rightarrow> bool" where
  "scalar v = (case v of PNone \<Rightarrow> True | PStr s \<Rightarrow> True | _ \<Rightarrow> False)"

text \<open>The URL of a lookup.\<close>

definition endpoint :: "string \<Rightarrow> string \<Rightarrow> string \<Rightarrow> string" where
  "endpoint baseUrl i datum = baseUrl @ ''/'' @ i @ ''/'' @ datum"

text \<open>The gene lookups of populate, in the order it issues them.\<close>

definition gene_fields :: "string list" where
  "gene_fields = [''sequence_name'', ''concise_description'', ''gene_models'', ''gene_class'',
                  ''human_orthologs'', ''nematode_orthologs'', ''other_orthologs'']"

text \<open>A statement preserves an observation of the state, whatever its outcome.\<close>

definition preserves :: "('s \<Rightarrow> 'b) \<Rightarrow> ('s, 'a) prog \<Rightarrow> bool" where
  "preserves obs m = (\<forall>s. obs (snd (m s)) = obs s)"

text \<open>
  A record whose \<open>db_id\<close> is an identifier with the \<open>XLOC\<close> prefix, and the cells
  of a record under a header: the value of each field, the empty string for a field
  the record lacks.
\<close>

definition xloc_record :: "wormdata \<Rightarrow> bool" where
  "xloc_record w =
     (case map_of (describe w) ''db_id'' of Some (PStr i) \<Rightarrow> prefix ''XLOC'' i | _ \<Rightarrow> False)"

definition cells :: "string list \<Rightarrow> wormdata \<Rightarrow> pyval list" where
  "cells hs w = map (\<lambda>f. case map_of (describe w) f of None \<Rightarrow> PStr [] | Some v \<Rightarrow> v) hs"

section \<open>Concrete inputs\<close>

text \<open>A network that is down, and one whose every response is not JSON.\<close>

definition net_down :: net where
  "net_down url = None"

definition net_not_json :: net where
  "net_not_json url = Some NotJson"

text \<open>The success shape of the API: \<^verbatim>\<open>{ "<fieldName>": { "data": <value> } }\<close>.\<close>

definition reply :: "string \<Rightarrow> pyval \<Rightarrow> response option" where
  "reply datum v = Some (Json (PDict [(datum, PDict [(''data'', v)])]))"

definition entry :: "string \<Rightarrow> pyval" where
  "entry l = PDict [(''ortholog'', PDict [(''label'', PStr l)])]"

definition model_row :: "string \<Rightarrow> pyval" where
  "model_row i = PDict [(''protein'', PDict [(''id'', PStr i)])]"

text \<open>
  A gene with two proteins (the second row of its \<open>gene_models\<close> table names none),
  two human orthologs, a \<open>null\<close> for the nematode orthologs, an error page for the
  other orthologs, and a best human match for the first protein only.
\<close>

definition net_scenario :: net where
  "net_scenario url =
     (if url = GENE_BASE @ ''/WBGene00001234/sequence_name''
        then reply ''sequence_name'' (PStr ''abc-1'')
      else if url = GENE_BASE @ ''/WBGene00001234/concise_description''
        then reply ''concise_description'' (PDict [(''text'', PStr ''a protein'')])
      else if url = GENE_BASE @ ''/WBGene00001234/gene_models''
        then reply ''gene_models''
               (PDict [(''table'', PList [model_row ''WP:CE12345'',
                                         PDict [(''model'', PStr ''F01G4.1'')],
                                         model_row ''WP:CE67890''])])
      else if url = GENE_BASE @ ''/WBGene00001234/gene_class''
        then reply ''gene_class'' (PDict [(''tag'', PDict [(''label'', PStr ''abc'')])])
      else if url = GENE_BASE @ ''/WBGene00001234/human_orthologs''
        then reply ''human_orthologs'' (PList [entry ''ABCA1'', entry ''ABCA2''])
      else if url = GENE_BASE @ ''/WBGene00001234/nematode_orthologs''
        then reply ''nematode_orthologs'' PNone
      else if url = GENE_BASE @ ''/WBGene00001234/other_orthologs''
        then Some NotJson
      else if url = PROTEIN_BASE @ ''/WP:CE12345/best_human_match''
        then reply ''best_human_match'' (PDict [(''description'', PStr ''human X'')])
      else if url = PROTEIN_BASE @ ''/WP:CE67890/best_human_match''
        then reply ''best_human_match'' (PDict [(''evalue'', PStr ''1e-20'')])
      else None)"

text \<open>The same, but \<open>sequence_name\<close> answers with a labelled object.\<close>

definition net_nested :: net where
  "net_nested url =
     (if url = GENE_BASE @ ''/WBGene00001234/sequence_name''
        then reply ''sequence_name'' (PDict [(''label'', PStr ''abc-1'')])
      else net_scenario url)"

definition file_scenario :: "string list list" where
  "file_scenario = [[''id'', ''log2(fold_change)''], [''XLOC_001'', ''2.5'']]"

definition blank_record :: wormdata where
  "blank_record =
     \<lparr>geneID = ''WBGene00001234'', dbId = None,
      data = [(''gene_id'', PStr ''WBGene00001234'')], requests = []\<rparr>"

text \<open>The scenario network, but the description lookup brings back an error page.\<close>

definition net_no_description :: net where
  "net_no_description url =
     (if url = GENE_BASE @ ''/WBGene00001234/concise_description'' then Some NotJson
      else net_scenario url)"

definition store_scenario :: cufflink where
  "store_scenario =
     Map.empty(''XLOC_001'' \<mapsto> dict_zip [''id'', ''log2(fold_change)''] [''XLOC_001'', ''2.5''])"

text \<open>A file whose data row is shorter than its header, and the store it loads to.\<close>

definition file_short_row :: "string list list" where
  "file_short_row = [[''id'', ''log2(fold_change)''], [''XLOC_001'']]"

definition store_short_row :: cufflink where
  "store_short_row = Map.empty(''XLOC_001'' \<mapsto> dict_zip [''id'', ''log2(fold_change)''] [''XLOC_001''])"

text \<open>
  A header list, held as object 0 of a store with no files yet; a record with nothing
  but a gene identifier, and one that carries an \<open>XLOC\<close> identifier as \<open>db_id\<close>; a
  file system where every path can be written.
\<close>

definition header_scenario :: "string list" where
  "header_scenario = [''db_id'', ''gene_id'', ''sequence_name'', ''up/down'']"

definition world_scenario :: world where
  "world_scenario = \<lparr>objects = (\<lambda>r. if r = 0 then header_scenario else []), files = Map.empty\<rparr>"

definition gene_only :: "string \<Rightarrow> wormdata" where
  "gene_only g = \<lparr>geneID = g, dbId = None, data = [(''gene_id'', PStr g)], requests = []\<rparr>"

definition xloc_only :: "string \<Rightarrow> wormdata" where
  "xloc_only i =
     \<lparr>geneID = i, dbId = Some i, data = [(''gene_id'', PStr i), (''db_id'', PStr i)],
      requests = []\<rparr>"

definition any_path :: "string \<Rightarrow> bool" where
  "any_path p = True"

text \<open>
  A network that answers every request with the same document, which holds a success
  shape for every field; its gene has one protein, \<open>CE12345\<close>.
\<close>

definition page :: pyval where
  "page = PDict
     [(''sequence_name'', PDict [(''data'', PStr ''abc-1'')]),
      (''concise_description'', PDict [(''data'', PDict [(''text'', PStr ''a protein'')])]),
      (''gene_models'', PDict [(''data'', PDict [(''table'', PList [model_row ''CE12345''])])]),
      (''gene_class'', PDict [(''data'', PDict [(''tag'', PDict [(''label'', PStr ''abc'')])])]),
      (''human_orthologs'', PDict [(''data'', PList [entry ''ABCA1'', entry ''ABCA2''])]),
      (''nematode_orthologs'', PDict [(''data'', PNone)]),
      (''other_orthologs'', PDict [(''data'', PList [])]),
      (''best_human_match'', PDict [(''data'', PDict [(''description'', PStr ''human X'')])])]"

definition net_all :: net where
  "net_all url = Some (Json page)"

text \<open>The record that the scenario is expected to end with.\<close>

definition record_scenario :: wormdata where
  "record_scenario =
     \<lparr>geneID = ''WBGene00001234'', dbId = Some ''XLOC_001'',
      data = [(''gene_id'', PStr ''WBGene00001234''), (''up/down'', PStr ''2.5''),
              (''sequence_name'', PStr ''abc-1''), (''description'', PStr ''a protein''),
              (''protein_id'', PStr ''WP:CE12345, WP:CE67890''), (''gene_class'', PStr ''abc''),
              (''human_orthologs'', PStr ''ABCA1, ABCA2''), (''nematode_orthologs'', PNone),
              (''other_orthologs'', PNone), (''best_human_ortholog'', PStr ''human X'')],
      requests = map (endpoint GENE_BASE ''WBGene00001234'') gene_fields @
                 [endpoint PROTEIN_BASE ''WP:CE12345'' ''best_human_match'',
                  endpoint PROTEIN_BASE ''WP:CE67890'' ''best_human_match'']\<rparr>"

text \<open>
  The record that python3 ends with on the network that answers every request, for
  the record identifier \<open>XLOC_001\<close> and any gene identifier.
\<close>

definition record_python3 :: "string \<Rightarrow> wormdata" where
  "record_python3 g =
     \<lparr>geneID = g, dbId = Some ''XLOC_001'',
      data = [(''gene_id'', PStr g), (''up/down'', PStr ''2.5''),
              (''sequence_name'', PStr ''abc-1''), (''description'', PStr ''a protein''),
              (''protein_id'', PStr ''CE12345''),
              (''gene_class'', PDict [(''tag'', PDict [(''label'', PStr ''abc'')])]),
              (''human_orthologs'', PStr ''ABCA1, ABCA2''), (''nematode_orthologs'', PNone),
              (''other_orthologs'', PNone),
              (''best_human_ortholog'',
               PStr ''human X, human X, human X, human X, human X, human X, human X'')],
      requests = map (endpoint GENE_BASE g) gene_fields @
                 map (\<lambda>c. endpoint PROTEIN_BASE [c] ''best_human_match'') ''CE12345''\<rparr>"

text \<open>
  The same network for a gene without proteins: the \<open>gene_models\<close> table of its
  document is empty.
\<close>

definition page_no_protein :: pyval where
  "page_no_protein = PDict
     [(''sequence_name'', PDict [(''data'', PStr ''abc-1'')]),
      (''concise_description'', PDict [(''data'', PDict [(''text'', PStr ''a protein'')])]),
      (''gene_models'', PDict [(''data'', PDict [(''table'', PList [])])]),
      (''gene_class'', PDict [(''data'', PDict [(''tag'', PDict [(''label'', PStr ''abc'')])])]),
      (''human_orthologs'', PDict [(''data'', PList [entry ''ABCA1'', entry ''ABCA2''])]),
      (''nematode_orthologs'', PDict [(''data'', PNone)]),
      (''other_orthologs'', PDict [(''data'', PList [])]),
      (''best_human_match'', PDict [(''data'', PDict [(''description'', PStr ''human X'')])])]"

definition net_no_protein :: net where
  "net_no_protein url = Some (Json page_no_protein)"

section \<open>Lemmas\<close>

subsection \<open>Sequencing\<close>

lemma bind_ret [simp]: "bind (ret x) f = f x"
  by (simp add: bind_def ret_def)

lemma bind_raise [simp]: "bind (raise e) f = raise e"
  by (simp add: bind_def raise_def)

lemma bind_lift_Inr [simp]: "bind (lift (Inr x)) f = f x"
  by (simp add: bind_def lift_def)

lemma bind_lift_Inl [simp]: "bind (lift (Inl e)) f = raise e"
  by (simp add: bind_def lift_def raise_def)

lemma ret_apply: "ret x s = (Inr x, s)"
  by (simp add: ret_def)

lemma raise_apply: "raise e s = (Inl e, s)"
  by (simp add: raise_def)

lemma lift_apply: "lift r s = (r, s)"
  by (simp add: lift_def)

lemma bind_returns:
  "bind m f s = (Inr y, s') \<longleftrightarrow> (\<exists>x s1. m s = (Inr x, s1) \<and> f x s1 = (Inr y, s'))"
  by (auto simp: bind_def split: prod.splits sum.splits)

lemma bind_returnsE:
  assumes "bind m f s = (Inr y, s')"
  obtains x s1 where "m s = (Inr x, s1)" and "f x s1 = (Inr y, s')"
  using assms by (auto simp: bind_returns)

lemma fst_bind_raises: "m s = (Inl e, s1) \<Longrightarrow> bind m f s = (Inl e, s1)"
  by (simp add: bind_def)

lemma ebind_simps [simp]: "ebind (Inr x) f = f x" "ebind (Inl e) f = Inl e"
  by (simp_all add: ebind_def)

lemma ebind_returns: "ebind r f = Inr y \<longleftrightarrow> (\<exists>x. r = Inr x \<and> f x = Inr y)"
  by (cases r) simp_all

lemma py_and_simps [simp]:
  "py_and (Inr True) b = b" "py_and (Inr False) b = Inr False" "py_and (Inl e) b = Inl e"
  by (simp_all add: py_and_def)

lemma py_and_returns:
  "py_and a b = Inr c \<longleftrightarrow> (a = Inr False \<and> \<not> c) \<or> (a = Inr True \<and> b = Inr c)"
  by (auto simp: py_and_def ebind_def split: sum.splits if_splits)

subsection \<open>What a statement leaves alone\<close>

lemma preservesD: "preserves obs m \<Longrightarrow> obs (snd (m s)) = obs s"
  by (simp add: preserves_def)

lemma preserves_returns: "preserves obs m \<Longrightarrow> m s = (r, s') \<Longrightarrow> obs s' = obs s"
  by (auto simp: preserves_def dest: spec [of _ s])

lemma preserves_ret [simp]: "preserves obs (ret x)"
  by (simp add: preserves_def ret_def)

lemma preserves_raise [simp]: "preserves obs (raise e)"
  by (simp add: preserves_def raise_def)

lemma preserves_lift [simp]: "preserves obs (lift r)"
  by (simp add: preserves_def lift_def)

lemma preserves_bind:
  assumes "preserves obs m" and "\<And>x. preserves obs (f x)"
  shows "preserves obs (bind m f)"
  unfolding preserves_def
proof
  fix s
  show "obs (snd (bind m f s)) = obs s"
  proof (cases "m s")
    case (Pair r s1)
    then have s1: "obs s1 = obs s"
      using assms(1) by (rule preserves_returns [rotated])
    show ?thesis
    proof (cases r)
      case (Inl e)
      with Pair s1 show ?thesis by (simp add: bind_def)
    next
      case (Inr x)
      with Pair s1 assms(2) [of x] show ?thesis by (simp add: bind_def preservesD)
    qed
  qed
qed

lemma preserves_for_each:
  assumes "\<And>x. preserves obs (body x)"
  shows "preserves obs (for_each xs body)"
  by (induction xs) (simp_all add: preserves_bind assms)

lemma preserves_if:
  "preserves obs m \<Longrightarrow> preserves obs n \<Longrightarrow> preserves obs (if c then m else n)"
  by simp

lemma preserves_set_item: "k \<noteq> k' \<Longrightarrow> preserves (\<lambda>s. map_of (data s) k) (set_item k' v)"
  by (simp add: preserves_def set_item_def update_conv')

lemma preserves_get_item [simp]: "preserves obs (get_item k)"
  by (simp add: preserves_def get_item_def split: option.splits)

lemma preserves_append_item:
  "k \<noteq> k' \<Longrightarrow> preserves (\<lambda>s. map_of (data s) k) (append_item k' v)"
  unfolding append_item_def
  by (rule preserves_bind) (simp_all add: preserves_set_item split: pyval.splits)

lemma preserves_requests_get: "preserves (\<lambda>s. map_of (data s) k) (requests_get nw url)"
  by (simp add: preserves_def requests_get_def split: option.splits)

lemma preserves_fetch: "preserves (\<lambda>s. map_of (data s) k) (fetch nw b i d)"
  unfolding fetch_def
  by (intro preserves_bind preserves_lift preserves_requests_get)

lemma preserves_joinIfExtant:
  "k \<noteq> k' \<Longrightarrow> preserves (\<lambda>s. map_of (data s) k) (joinIfExtant k')"
  unfolding joinIfExtant_def
  by (intro preserves_bind preserves_lift preserves_get_item preserves_if preserves_set_item)

lemma preserves_up_down_block:
  "k \<noteq> ''up/down'' \<Longrightarrow> preserves (\<lambda>s. map_of (data s) k) (up_down_block db d)"
  unfolding up_down_block_def
  by (auto split: option.splits intro!: preserves_bind preserves_set_item)

lemma preserves_sequence_block:
  "k \<noteq> ''sequence_name'' \<Longrightarrow> preserves (\<lambda>s. map_of (data s) k) (sequence_block nw g)"
  unfolding sequence_block_def
  by (intro preserves_bind preserves_fetch preserves_set_item)

lemma preserves_description_block:
  "k \<noteq> ''description'' \<Longrightarrow> preserves (\<lambda>s. map_of (data s) k) (description_block nw g)"
  unfolding description_block_def
  by (intro preserves_bind preserves_fetch preserves_set_item preserves_lift)

lemma preserves_gene_models_block:
  "k \<noteq> ''protein_id'' \<Longrightarrow> preserves (\<lambda>s. map_of (data s) k) (gene_models_block nw g)"
  unfolding gene_models_block_def
  by (intro preserves_bind preserves_fetch preserves_set_item preserves_lift preserves_if
        preserves_for_each preserves_append_item preserves_ret)

lemma preserves_gene_class_block:
  "k \<noteq> ''gene_class'' \<Longrightarrow> preserves (\<lambda>s. map_of (data s) k) (gene_class_block nw g)"
  unfolding gene_class_block_def
  by (intro preserves_bind preserves_fetch preserves_set_item preserves_lift preserves_if
        preserves_ret)

lemma preserves_orthologs_block:
  "k \<noteq> f \<Longrightarrow> preserves (\<lambda>s. map_of (data s) k) (orthologs_block nw g f)"
  unfolding orthologs_block_def
  by (intro preserves_bind preserves_fetch preserves_set_item preserves_lift preserves_if
        preserves_for_each preserves_append_item preserves_ret preserves_joinIfExtant)

lemma preserves_best_human_match:
  "k \<noteq> ''best_human_ortholog'' \<Longrightarrow> preserves (\<lambda>s. map_of (data s) k) (best_human_match nw p)"
  unfolding best_human_match_def
  by (intro preserves_bind preserves_fetch preserves_lift preserves_if
        preserves_append_item preserves_ret)

lemma preserves_best_human_block:
  "k \<noteq> ''best_human_ortholog'' \<Longrightarrow> preserves (\<lambda>s. map_of (data s) k) (best_human_block nw)"
  unfolding best_human_block_def
  by (intro preserves_bind preserves_set_item preserves_get_item preserves_lift preserves_if
        preserves_for_each preserves_best_human_match preserves_ret)


subsection \<open>Statements that return\<close>

lemma set_item_returns:
  "set_item k v s = (r, s') \<longleftrightarrow> r = Inr () \<and> s' = s\<lparr>data := AList.update k v (data s)\<rparr>"
  by (auto simp: set_item_def)

lemma get_item_returns:
  "get_item k s = (Inr v, s') \<longleftrightarrow> map_of (data s) k = Some v \<and> s' = s"
  by (auto simp: get_item_def split: option.splits)

lemma append_item_returns:
  "append_item k v s = (Inr (), s') \<longleftrightarrow>
     (\<exists>xs. map_of (data s) k = Some (PList xs) \<and>
           s' = s\<lparr>data := AList.update k (PList (xs @ [v])) (data s)\<rparr>)"
proof (cases "map_of (data s) k")
  case None
  then show ?thesis by (simp add: append_item_def bind_def get_item_def)
next
  case (Some l)
  then show ?thesis
    by (cases l) (auto simp: append_item_def bind_def get_item_def set_item_def raise_def)
qed

lemma fetch_returns:
  "fetch nw b p datum s = (Inr v, s') \<longleftrightarrow>
     (\<exists>i. p = PStr i \<and> lookup nw b i datum = Inr v \<and>
          s' = s\<lparr>requests := requests s @ [b @ ''/'' @ i @ ''/'' @ datum]\<rparr>)"
  by (cases p)
     (auto simp: fetch_def url_of_def lookup_def requests_get_def bind_returns lift_apply
                 raise_apply bind_def
           split: option.splits)

lemma map_PStr_eq [simp]: "map PStr xs = map PStr ys \<longleftrightarrow> xs = ys"
  by (simp add: inj_map_eq_map inj_def)

lemma str_items_strings: "str_items (map PStr ss) = Inr ss"
  by (induction ss) simp_all

lemma str_items_returnsD: "str_items xs = Inr ss \<Longrightarrow> xs = map PStr ss"
  by (induction xs arbitrary: ss rule: str_items.induct) (auto split: sum.splits)

lemma str_items_returns: "str_items xs = Inr ss \<longleftrightarrow> xs = map PStr ss"
  using str_items_strings str_items_returnsD by auto

lemma foldl_join: "foldl (\<lambda>acc t. acc @ sep @ t) s ss = s @ concat (map (\<lambda>t. sep @ t) ss)"
  by (induction ss arbitrary: s) simp_all

lemma comma_joined_Cons: "comma_joined (x # xs) = x @ concat (map (\<lambda>t. '', '' @ t) xs)"
  by (induction xs arbitrary: x) simp_all

lemma join_comma_joined: "join '', '' ss = comma_joined ss"
  by (cases ss) (simp_all add: foldl_join [where sep = "'', ''", simplified] comma_joined_Cons)

lemma joinIfExtant_returns:
  assumes "joinIfExtant k s = (Inr (), s')" and "map_of (data s) k = Some (PList xs)"
  obtains ss where "xs = map PStr ss" and "s' = s\<lparr>data := AList.update k (flatten ss) (data s)\<rparr>"
proof (cases "xs = []")
  case True
  with assms have "s' = s\<lparr>data := AList.update k (flatten []) (data s)\<rparr>"
    by (simp add: joinIfExtant_def get_item_def bind_def lift_apply set_item_def flatten_def)
  with True that [of "[]"] show ?thesis by simp
next
  case False
  with assms obtain t where t: "py_join '', '' (PList xs) = Inr t"
    and s': "s' = s\<lparr>data := AList.update k (PStr t) (data s)\<rparr>"
    by (auto simp: joinIfExtant_def get_item_def bind_def lift_apply set_item_def
             split: sum.splits)
  from t obtain ss where ss: "xs = map PStr ss" and "t = join '', '' ss"
    by (auto simp: py_join_def ebind_returns str_items_returns)
  with False s' have "s' = s\<lparr>data := AList.update k (flatten ss) (data s)\<rparr>"
    by (simp add: flatten_def join_comma_joined)
  with ss that show ?thesis by blast
qed

subsection \<open>Loops that return\<close>

lemma for_each_append_returns:
  assumes "for_each items (\<lambda>item. bind (lift (f item)) (append_item k)) s = (Inr (), s')"
    and "map_of (data s) k = Some (PList acc)"
  shows "\<exists>xs. map f items = map Inr xs \<and>
              s' = s\<lparr>data := AList.update k (PList (acc @ xs)) (data s)\<rparr>"
  using assms
proof (induction items arbitrary: s acc)
  case Nil
  then show ?case by (simp add: ret_apply update_triv)
next
  case (Cons item items)
  from Cons.prems(1) obtain s1 where
    step: "bind (lift (f item)) (append_item k) s = (Inr (), s1)" and
    rest: "for_each items (\<lambda>item. bind (lift (f item)) (append_item k)) s1 = (Inr (), s')"
    by (auto simp: bind_returns)
  from step Cons.prems(2) obtain x where x: "f item = Inr x"
    and s1: "s1 = s\<lparr>data := AList.update k (PList (acc @ [x])) (data s)\<rparr>"
    by (auto simp: bind_returns lift_apply append_item_returns)
  from s1 have "map_of (data s1) k = Some (PList (acc @ [x]))"
    by (simp add: update_conv')
  from Cons.IH [OF rest this] obtain xs where
    xs: "map f items = map Inr xs" and
    s': "s' = s1\<lparr>data := AList.update k (PList ((acc @ [x]) @ xs)) (data s1)\<rparr>"
    by blast
  from x xs have "map f (item # items) = map Inr (x # xs)" by simp
  moreover from s' s1 have "s' = s\<lparr>data := AList.update k (PList (acc @ x # xs)) (data s)\<rparr>"
    by simp
  ultimately show ?case by blast
qed

lemma for_each_filter_append_returns:
  assumes "for_each items (\<lambda>item. bind (lift (c item)) (\<lambda>b.
              if b then bind (lift (f item)) (append_item k) else ret ())) s = (Inr (), s')"
    and "map_of (data s) k = Some (PList acc)"
  shows "\<exists>xs. list_all (\<lambda>item. c item = Inr True \<or> c item = Inr False) items \<and>
              map f (filter (\<lambda>item. c item = Inr True) items) = map Inr xs \<and>
              s' = s\<lparr>data := AList.update k (PList (acc @ xs)) (data s)\<rparr>"
  using assms
proof (induction items arbitrary: s acc)
  case Nil
  then show ?case by (simp add: ret_apply update_triv)
next
  case (Cons item items)
  let ?body = "\<lambda>item. bind (lift (c item)) (\<lambda>b.
              if b then bind (lift (f item)) (append_item k) else ret ())"
  from Cons.prems(1) obtain s1 where
    step: "?body item s = (Inr (), s1)" and
    rest: "for_each items ?body s1 = (Inr (), s')"
    by (auto simp: bind_returns)
  show ?case
  proof (cases "c item = Inr True")
    case True
    with step Cons.prems(2) obtain x where x: "f item = Inr x"
      and s1: "s1 = s\<lparr>data := AList.update k (PList (acc @ [x])) (data s)\<rparr>"
      by (auto simp: bind_returns lift_apply append_item_returns)
    from s1 have "map_of (data s1) k = Some (PList (acc @ [x]))"
      by (simp add: update_conv')
    from Cons.IH [OF rest this] obtain xs where
      ok: "list_all (\<lambda>item. c item = Inr True \<or> c item = Inr False) items" and
      xs: "map f (filter (\<lambda>item. c item = Inr True) items) = map Inr xs" and
      s': "s' = s1\<lparr>data := AList.update k (PList ((acc @ [x]) @ xs)) (data s1)\<rparr>"
      by blast
    from x xs True have "map f (filter (\<lambda>item. c item = Inr True) (item # items)) = map Inr (x # xs)"
      by simp
    moreover from s' s1 have "s' = s\<lparr>data := AList.update k (PList (acc @ x # xs)) (data s)\<rparr>"
      by simp
    moreover from ok True have "list_all (\<lambda>item. c item = Inr True \<or> c item = Inr False) (item # items)"
      by simp
    ultimately show ?thesis by blast
  next
    case False
    with step have cf: "c item = Inr False" and s1: "s1 = s"
      by (auto simp: bind_returns lift_apply ret_apply split: if_splits)
    from Cons.IH [OF rest [unfolded s1] Cons.prems(2)] obtain xs where
      ok: "list_all (\<lambda>item. c item = Inr True \<or> c item = Inr False) items" and
      xs: "map f (filter (\<lambda>item. c item = Inr True) items) = map Inr xs" and
      s': "s' = s\<lparr>data := AList.update k (PList (acc @ xs)) (data s)\<rparr>"
      by blast
    with cf show ?thesis by auto
  qed
qed

subsection \<open>The blocks of populate, when they return\<close>

lemma fetch_returns':
  "fetch nw b p datum s = (Inr v, s') \<longleftrightarrow>
     (\<exists>i. p = PStr i \<and> lookup nw b i datum = Inr v \<and>
          s' = s\<lparr>requests := requests s @ [endpoint b i datum]\<rparr>)"
  unfolding endpoint_def by (rule fetch_returns)

lemma up_down_block_returns:
  "up_down_block db d s = (Inr (), s') \<longleftrightarrow>
     ((d = None \<or> d = Some []) \<and> s' = s) \<or>
     (\<exists>i row v. d = Some i \<and> i \<noteq> [] \<and> db i = Some row \<and> row ''log2(fold_change)'' = Some v \<and>
        s' = s\<lparr>data := AList.update ''up/down'' (PStr v) (data s)\<rparr>)"
  by (auto simp: up_down_block_def fold_change_def CuffLinkDatabase_get_def bind_returns
        lift_apply ret_apply set_item_returns split: option.splits)

lemma sequence_block_returns:
  "sequence_block nw g s = (Inr (), s') \<longleftrightarrow>
     (\<exists>v. lookup nw GENE_BASE g ''sequence_name'' = Inr v \<and>
          s' = s\<lparr>data := AList.update ''sequence_name'' v (data s),
                 requests := requests s @ [endpoint GENE_BASE g ''sequence_name'']\<rparr>)"
  by (auto simp: sequence_block_def bind_returns fetch_returns' set_item_returns)

lemma description_block_returns:
  "description_block nw g s = (Inr (), s') \<longleftrightarrow>
     (\<exists>v t. lookup nw GENE_BASE g ''concise_description'' = Inr v \<and> py_getitem v ''text'' = Inr t \<and>
          s' = s\<lparr>data := AList.update ''description'' t (data s),
                 requests := requests s @ [endpoint GENE_BASE g ''concise_description'']\<rparr>)"
  by (auto simp: description_block_def bind_returns fetch_returns' set_item_returns lift_apply)

lemma gene_class_block_returns:
  "gene_class_block nw g s = (Inr (), s') \<Longrightarrow>
     \<exists>v. lookup nw GENE_BASE g ''gene_class'' = Inr v \<and>
         requests s' = requests s @ [endpoint GENE_BASE g ''gene_class''] \<and>
         (data s' = data s \<or>
          (\<exists>t l. py_getitem v ''tag'' = Inr t \<and> py_getitem t ''label'' = Inr l \<and>
                 data s' = AList.update ''gene_class'' l (data s)))"
  by (auto simp: gene_class_block_def bind_returns fetch_returns' set_item_returns lift_apply
        ret_apply ebind_returns split: if_splits)

lemma gene_models_block_returns:
  assumes "gene_models_block nw g s = (Inr (), s')"
  shows "\<exists>gm ids. lookup nw GENE_BASE g ''gene_models'' = Inr gm \<and>
           (if truthy gm \<and> py_contains ''table'' gm = Inr True
            then \<exists>items. ebind (py_getitem gm ''table'') py_iter = Inr items \<and>
                   list_all (\<lambda>item. has_protein_id item = Inr True \<or> has_protein_id item = Inr False) items \<and>
                   map protein_id_of (filter (\<lambda>item. has_protein_id item = Inr True) items) = map Inr ids
            else ids = []) \<and>
           s' = s\<lparr>data := AList.update ''protein_id'' (PList ids) (data s),
                  requests := requests s @ [endpoint GENE_BASE g ''gene_models'']\<rparr>"
proof -
  from assms obtain gm s1 s2 c where
    gm: "lookup nw GENE_BASE g ''gene_models'' = Inr gm" and
    s1: "s1 = s\<lparr>requests := requests s @ [endpoint GENE_BASE g ''gene_models'']\<rparr>" and
    s2: "s2 = s1\<lparr>data := AList.update ''protein_id'' (PList []) (data s1)\<rparr>" and
    c: "py_and (Inr (truthy gm)) (py_contains ''table'' gm) = Inr c" and
    rest: "(if c then
         bind (lift (ebind (py_getitem gm ''table'') py_iter)) (\<lambda>items.
         for_each items (\<lambda>item.
           bind (lift (has_protein_id item)) (\<lambda>c'.
             if c' then bind (lift (protein_id_of item)) (append_item ''protein_id'')
             else ret ())))
       else ret ()) s2 = (Inr (), s')"
    by (auto simp: gene_models_block_def bind_returns fetch_returns' set_item_returns lift_apply)
  from s2 have pid: "map_of (data s2) ''protein_id'' = Some (PList [])"
    by (simp add: update_conv')
  show ?thesis
  proof (cases c)
    case True
    with c have t: "truthy gm \<and> py_contains ''table'' gm = Inr True"
      by (auto simp: py_and_returns)
    from True rest obtain items where
      items: "ebind (py_getitem gm ''table'') py_iter = Inr items" and
      loop: "for_each items (\<lambda>item.
           bind (lift (has_protein_id item)) (\<lambda>c'.
             if c' then bind (lift (protein_id_of item)) (append_item ''protein_id'')
             else ret ())) s2 = (Inr (), s')"
      by (auto simp: bind_returns lift_apply)
    from for_each_filter_append_returns [OF loop pid] obtain ids where
      "list_all (\<lambda>item. has_protein_id item = Inr True \<or> has_protein_id item = Inr False) items"
      "map protein_id_of (filter (\<lambda>item. has_protein_id item = Inr True) items) = map Inr ids"
      "s' = s2\<lparr>data := AList.update ''protein_id'' (PList ([] @ ids)) (data s2)\<rparr>"
      by blast
    with gm t items s1 s2 show ?thesis
      by (intro exI [of _ gm] exI [of _ ids]) simp
  next
    case False
    with c have "\<not> (truthy gm \<and> py_contains ''table'' gm = Inr True)"
      by (auto simp: py_and_returns)
    moreover from False rest have "s' = s2" by (simp add: ret_apply)
    ultimately show ?thesis using gm s1 s2
      by (intro exI [of _ gm] exI [of _ "[]"]) auto
  qed
qed

lemma orthologs_block_returns:
  assumes "orthologs_block nw g k s = (Inr (), s')"
  shows "\<exists>r xs. lookup nw GENE_BASE g k = Inr r \<and> ortholog_entries r xs \<and>
           s' = s\<lparr>data := AList.update k (flatten xs) (data s),
                  requests := requests s @ [endpoint GENE_BASE g k]\<rparr>"
proof -
  from assms obtain r s1 s2 s3 where
    r: "lookup nw GENE_BASE g k = Inr r" and
    s1: "s1 = s\<lparr>requests := requests s @ [endpoint GENE_BASE g k]\<rparr>" and
    s2: "s2 = s1\<lparr>data := AList.update k (PList []) (data s1)\<rparr>" and
    loop: "(if truthy r then
             bind (lift (py_iter r)) (\<lambda>items.
             for_each items (\<lambda>item. bind (lift (ortholog_label item)) (append_item k)))
           else ret ()) s2 = (Inr (), s3)" and
    j: "joinIfExtant k s3 = (Inr (), s')"
    by (auto simp: orthologs_block_def bind_returns fetch_returns' set_item_returns)
  from s2 have k2: "map_of (data s2) k = Some (PList [])"
    by (simp add: update_conv')
  have "\<exists>ys. (if truthy r then \<exists>items. py_iter r = Inr items \<and> map ortholog_label items = map Inr ys
                else ys = []) \<and>
             s3 = s2\<lparr>data := AList.update k (PList ys) (data s2)\<rparr>"
  proof (cases "truthy r")
    case True
    with loop obtain items where items: "py_iter r = Inr items" and
      l: "for_each items (\<lambda>item. bind (lift (ortholog_label item)) (append_item k)) s2 = (Inr (), s3)"
      by (auto simp: bind_returns lift_apply)
    from for_each_append_returns [OF l k2] True items show ?thesis by auto
  next
    case False
    with loop have "s3 = s2" by (simp add: ret_apply)
    with False update_triv [OF k2] show ?thesis by simp
  qed
  then obtain ys where
    ys: "if truthy r then \<exists>items. py_iter r = Inr items \<and> map ortholog_label items = map Inr ys
         else ys = []" and
    s3: "s3 = s2\<lparr>data := AList.update k (PList ys) (data s2)\<rparr>"
    by blast
  from s3 have "map_of (data s3) k = Some (PList ys)"
    by (simp add: update_conv')
  from joinIfExtant_returns [OF j this] obtain xs where
    xs: "ys = map PStr xs" and s': "s' = s3\<lparr>data := AList.update k (flatten xs) (data s3)\<rparr>"
    by blast
  from ys xs have "ortholog_entries r xs"
    by (auto simp: ortholog_entries_def collected_def split: if_splits)
  with r s' s3 s2 s1 show ?thesis
    by (intro exI [of _ r] exI [of _ xs]) simp
qed


lemma best_human_match_returns:
  assumes "best_human_match nw p s = (Inr (), s')"
    and "map_of (data s) ''best_human_ortholog'' = Some (PList acc)"
  shows "\<exists>i m c. p = PStr i \<and> lookup nw PROTEIN_BASE i ''best_human_match'' = Inr m \<and>
           description_of m = Inr c \<and>
           s' = s\<lparr>data := AList.update ''best_human_ortholog'' (PList (acc @ c)) (data s),
                  requests := requests s @ [endpoint PROTEIN_BASE i ''best_human_match'']\<rparr>"
proof -
  from assms(1) obtain i m s1 c where
    p: "p = PStr i" and
    m: "lookup nw PROTEIN_BASE i ''best_human_match'' = Inr m" and
    s1: "s1 = s\<lparr>requests := requests s @ [endpoint PROTEIN_BASE i ''best_human_match'']\<rparr>" and
    c: "py_and (Inr (truthy m)) (py_contains ''description'' m) = Inr c" and
    rest: "(if c then bind (lift (py_getitem m ''description''))
                        (append_item ''best_human_ortholog'')
           else ret ()) s1 = (Inr (), s')"
    by (auto simp: best_human_match_def bind_returns fetch_returns' lift_apply)
  from s1 assms(2) have acc: "map_of (data s1) ''best_human_ortholog'' = Some (PList acc)"
    by simp
  show ?thesis
  proof (cases c)
    case True
    with rest acc obtain d where d: "py_getitem m ''description'' = Inr d" and
      s': "s' = s1\<lparr>data := AList.update ''best_human_ortholog'' (PList (acc @ [d])) (data s1)\<rparr>"
      by (auto simp: bind_returns lift_apply append_item_returns)
    from c True d have "description_of m = Inr [d]"
      by (simp add: description_of_def)
    with p m s' s1 show ?thesis
      by (intro exI [of _ i] exI [of _ m] exI [of _ "[d]"]) simp
  next
    case False
    with rest have "s' = s1" by (simp add: ret_apply)
    moreover from c False have "description_of m = Inr []"
      by (simp add: description_of_def)
    ultimately show ?thesis using p m s1 update_triv [OF assms(2)]
      by (intro exI [of _ i] exI [of _ m] exI [of _ "[]"]) simp
  qed
qed

lemma best_human_loop_returns:
  assumes "for_each ids (best_human_match nw) s = (Inr (), s')"
    and "map_of (data s) ''best_human_ortholog'' = Some (PList acc)"
  shows "\<exists>ps cs. ids = map PStr ps \<and> best_matches nw ps = Inr cs \<and>
           s' = s\<lparr>data := AList.update ''best_human_ortholog'' (PList (acc @ cs)) (data s),
                  requests := requests s @
                    map (\<lambda>p. endpoint PROTEIN_BASE p ''best_human_match'') ps\<rparr>"
  using assms
proof (induction ids arbitrary: s acc)
  case Nil
  from Nil.prems(1) have "s' = s" by (simp add: ret_apply)
  with update_triv [OF Nil.prems(2)] show ?case
    by (intro exI [of _ "[]"]) simp
next
  case (Cons p ids)
  from Cons.prems(1) obtain s1 where
    step: "best_human_match nw p s = (Inr (), s1)" and
    rest: "for_each ids (best_human_match nw) s1 = (Inr (), s')"
    by (auto simp: bind_returns)
  from best_human_match_returns [OF step Cons.prems(2)] obtain i m c where
    p: "p = PStr i" and
    m: "lookup nw PROTEIN_BASE i ''best_human_match'' = Inr m" and
    c: "description_of m = Inr c" and
    s1: "s1 = s\<lparr>data := AList.update ''best_human_ortholog'' (PList (acc @ c)) (data s),
                  requests := requests s @ [endpoint PROTEIN_BASE i ''best_human_match'']\<rparr>"
    by blast
  from s1 have "map_of (data s1) ''best_human_ortholog'' = Some (PList (acc @ c))"
    by (simp add: update_conv')
  from Cons.IH [OF rest this] obtain ps cs where
    ids: "ids = map PStr ps" and
    cs: "best_matches nw ps = Inr cs" and
    s': "s' = s1\<lparr>data := AList.update ''best_human_ortholog'' (PList ((acc @ c) @ cs)) (data s1),
                  requests := requests s1 @
                    map (\<lambda>p. endpoint PROTEIN_BASE p ''best_human_match'') ps\<rparr>"
    by blast
  from p ids have a: "p # ids = map PStr (i # ps)" by simp
  from m c cs have b: "best_matches nw (i # ps) = Inr (c @ cs)" by simp
  from s' s1 have
    "s' = s\<lparr>data := AList.update ''best_human_ortholog'' (PList (acc @ c @ cs)) (data s),
            requests := requests s @
               map (\<lambda>p. endpoint PROTEIN_BASE p ''best_human_match'') (i # ps)\<rparr>"
    by simp
  with a b show ?case
    by (intro exI [of _ "i # ps"] exI [of _ "c @ cs"] conjI)
qed

lemma best_human_block_returns:
  assumes "best_human_block nw s = (Inr (), s')"
    and "map_of (data s) ''protein_id'' = Some (PList ids)"
  shows "\<exists>ps cs. ids = map PStr ps \<and> best_matches nw ps = Inr cs \<and>
           s' = s\<lparr>data := AList.update ''best_human_ortholog'' (PList cs) (data s),
                  requests := requests s @
                    map (\<lambda>p. endpoint PROTEIN_BASE p ''best_human_match'') ps\<rparr>"
proof -
  define s1 where "s1 = s\<lparr>data := AList.update ''best_human_ortholog'' (PList []) (data s)\<rparr>"
  have pid: "map_of (data s1) ''protein_id'' = Some (PList ids)"
    using assms(2) by (simp add: s1_def update_conv')
  have bho: "map_of (data s1) ''best_human_ortholog'' = Some (PList [])"
    by (simp add: s1_def update_conv')
  from assms(1) pid have rest:
    "(if ids \<noteq> [] then for_each ids (best_human_match nw) else ret ()) s1 = (Inr (), s')"
    by (auto simp: best_human_block_def bind_returns set_item_returns get_item_returns
          s1_def [symmetric] is_str_def lift_apply split: if_splits)
  show ?thesis
  proof (cases "ids = []")
    case True
    with rest have "s' = s1" by (simp add: ret_apply)
    with True show ?thesis
      by (intro exI [of _ "[]"]) (simp add: s1_def)
  next
    case False
    with rest have "for_each ids (best_human_match nw) s1 = (Inr (), s')" by simp
    from best_human_loop_returns [OF this bho] show ?thesis
      by (simp add: s1_def)
  qed
qed

subsection \<open>populate, when it returns\<close>

lemma populate_returnsE:
  assumes "populate nw db s = (Inr (), s')" and "prefix ''WBGene'' (geneID s)"
  obtains sq dv tx gm ps gc hv hs nv ns ov os bs where
    "lookup nw GENE_BASE (geneID s) ''sequence_name'' = Inr sq"
    "lookup nw GENE_BASE (geneID s) ''concise_description'' = Inr dv"
    "py_getitem dv ''text'' = Inr tx"
    "lookup nw GENE_BASE (geneID s) ''gene_models'' = Inr gm"
    "protein_entries gm ps"
    "lookup nw GENE_BASE (geneID s) ''gene_class'' = Inr gc"
    "lookup nw GENE_BASE (geneID s) ''human_orthologs'' = Inr hv"
    "ortholog_entries hv hs"
    "lookup nw GENE_BASE (geneID s) ''nematode_orthologs'' = Inr nv"
    "ortholog_entries nv ns"
    "lookup nw GENE_BASE (geneID s) ''other_orthologs'' = Inr ov"
    "ortholog_entries ov os"
    "best_matches nw ps = Inr (map PStr bs)"
    "requests s' = requests s @ map (endpoint GENE_BASE (geneID s)) gene_fields @
                     map (\<lambda>p. endpoint PROTEIN_BASE p ''best_human_match'') ps"
    "map_of (data s') ''sequence_name'' = Some sq"
    "map_of (data s') ''description'' = Some tx"
    "map_of (data s') ''protein_id'' = Some (flatten ps)"
    "map_of (data s') ''human_orthologs'' = Some (flatten hs)"
    "map_of (data s') ''nematode_orthologs'' = Some (flatten ns)"
    "map_of (data s') ''other_orthologs'' = Some (flatten os)"
    "map_of (data s') ''best_human_ortholog'' = Some (flatten bs)"
    "map_of (data s') ''up/down'' = map_of (data s) ''up/down'' \<or>
       (\<exists>v. map_of (data s') ''up/down'' = Some (PStr v))"
    "map_of (data s') ''gene_class'' = map_of (data s) ''gene_class'' \<or>
       (\<exists>t l. py_getitem gc ''tag'' = Inr t \<and> py_getitem t ''label'' = Inr l \<and>
              map_of (data s') ''gene_class'' = Some l)"
    "\<And>k. k \<notin> {''up/down'', ''sequence_name'', ''description'', ''protein_id'', ''gene_class'',
              ''human_orthologs'', ''nematode_orthologs'', ''other_orthologs'',
              ''best_human_ortholog''} \<Longrightarrow> map_of (data s') k = map_of (data s) k"
proof -
  let ?g = "geneID s"
  from assms obtain s1 s2 s3 s4 s5 s6 s7 s8 s9 s10 where
    b1: "up_down_block db (dbId s) s = (Inr (), s1)" and
    b2: "sequence_block nw ?g s1 = (Inr (), s2)" and
    b3: "description_block nw ?g s2 = (Inr (), s3)" and
    b4: "gene_models_block nw ?g s3 = (Inr (), s4)" and
    b5: "gene_class_block nw ?g s4 = (Inr (), s5)" and
    b6: "orthologs_block nw ?g ''human_orthologs'' s5 = (Inr (), s6)" and
    b7: "orthologs_block nw ?g ''nematode_orthologs'' s6 = (Inr (), s7)" and
    b8: "orthologs_block nw ?g ''other_orthologs'' s7 = (Inr (), s8)" and
    b9: "best_human_block nw s8 = (Inr (), s9)" and
    b10: "joinIfExtant ''protein_id'' s9 = (Inr (), s10)" and
    b11: "joinIfExtant ''best_human_ortholog'' s10 = (Inr (), s')"
    by (auto simp: populate_def bind_returns split: if_splits)
  from b1 have s1: "requests s1 = requests s"
    "\<And>k. k \<noteq> ''up/down'' \<Longrightarrow> map_of (data s1) k = map_of (data s) k"
    "map_of (data s1) ''up/down'' = map_of (data s) ''up/down'' \<or>
       (\<exists>v. map_of (data s1) ''up/down'' = Some (PStr v))"
    by (auto simp: up_down_block_returns update_conv')
  from b2 obtain sq where sq: "lookup nw GENE_BASE ?g ''sequence_name'' = Inr sq" and
    s2: "s2 = s1\<lparr>data := AList.update ''sequence_name'' sq (data s1),
                  requests := requests s1 @ [endpoint GENE_BASE ?g ''sequence_name'']\<rparr>"
    by (auto simp: sequence_block_returns)
  from b3 obtain dv tx where dv: "lookup nw GENE_BASE ?g ''concise_description'' = Inr dv" and
    tx: "py_getitem dv ''text'' = Inr tx" and
    s3: "s3 = s2\<lparr>data := AList.update ''description'' tx (data s2),
                  requests := requests s2 @ [endpoint GENE_BASE ?g ''concise_description'']\<rparr>"
    by (auto simp: description_block_returns)
  from gene_models_block_returns [OF b4] obtain gm ids where
    gm: "lookup nw GENE_BASE ?g ''gene_models'' = Inr gm" and
    ids: "if truthy gm \<and> py_contains ''table'' gm = Inr True
            then \<exists>items. ebind (py_getitem gm ''table'') py_iter = Inr items \<and>
                   list_all (\<lambda>item. has_protein_id item = Inr True \<or> has_protein_id item = Inr False) items \<and>
                   map protein_id_of (filter (\<lambda>item. has_protein_id item = Inr True) items) = map Inr ids
            else ids = []" and
    s4: "s4 = s3\<lparr>data := AList.update ''protein_id'' (PList ids) (data s3),
                  requests := requests s3 @ [endpoint GENE_BASE ?g ''gene_models'']\<rparr>"
    by blast
  from gene_class_block_returns [OF b5] obtain gc where
    gc: "lookup nw GENE_BASE ?g ''gene_class'' = Inr gc" and
    r5: "requests s5 = requests s4 @ [endpoint GENE_BASE ?g ''gene_class'']" and
    d5: "data s5 = data s4 \<or>
         (\<exists>t l. py_getitem gc ''tag'' = Inr t \<and> py_getitem t ''label'' = Inr l \<and>
                data s5 = AList.update ''gene_class'' l (data s4))"
    by blast
  from d5 have k5: "\<And>k. k \<noteq> ''gene_class'' \<Longrightarrow> map_of (data s5) k = map_of (data s4) k"
    by (auto simp: update_conv')
  from d5 have g5: "map_of (data s5) ''gene_class'' = map_of (data s4) ''gene_class'' \<or>
       (\<exists>t l. py_getitem gc ''tag'' = Inr t \<and> py_getitem t ''label'' = Inr l \<and>
              map_of (data s5) ''gene_class'' = Some l)"
    by (auto simp: update_conv')
  from orthologs_block_returns [OF b6] obtain hv hs where
    hv: "lookup nw GENE_BASE ?g ''human_orthologs'' = Inr hv" and hs: "ortholog_entries hv hs" and
    s6: "s6 = s5\<lparr>data := AList.update ''human_orthologs'' (flatten hs) (data s5),
                  requests := requests s5 @ [endpoint GENE_BASE ?g ''human_orthologs'']\<rparr>"
    by blast
  from orthologs_block_returns [OF b7] obtain nv ns where
    nv: "lookup nw GENE_BASE ?g ''nematode_orthologs'' = Inr nv" and ns: "ortholog_entries nv ns" and
    s7: "s7 = s6\<lparr>data := AList.update ''nematode_orthologs'' (flatten ns) (data s6),
                  requests := requests s6 @ [endpoint GENE_BASE ?g ''nematode_orthologs'']\<rparr>"
    by blast
  from orthologs_block_returns [OF b8] obtain ov os where
    ov: "lookup nw GENE_BASE ?g ''other_orthologs'' = Inr ov" and os: "ortholog_entries ov os" and
    s8: "s8 = s7\<lparr>data := AList.update ''other_orthologs'' (flatten os) (data s7),
                  requests := requests s7 @ [endpoint GENE_BASE ?g ''other_orthologs'']\<rparr>"
    by blast
  have d2: "data s2 = AList.update ''sequence_name'' sq (data s1)"
    and r2: "requests s2 = requests s1 @ [endpoint GENE_BASE ?g ''sequence_name'']"
    by (simp_all add: s2)
  have d3: "data s3 = AList.update ''description'' tx (data s2)"
    and r3: "requests s3 = requests s2 @ [endpoint GENE_BASE ?g ''concise_description'']"
    by (simp_all add: s3)
  have d4: "data s4 = AList.update ''protein_id'' (PList ids) (data s3)"
    and r4: "requests s4 = requests s3 @ [endpoint GENE_BASE ?g ''gene_models'']"
    by (simp_all add: s4)
  have d6: "data s6 = AList.update ''human_orthologs'' (flatten hs) (data s5)"
    and r6: "requests s6 = requests s5 @ [endpoint GENE_BASE ?g ''human_orthologs'']"
    by (simp_all add: s6)
  have d7: "data s7 = AList.update ''nematode_orthologs'' (flatten ns) (data s6)"
    and r7: "requests s7 = requests s6 @ [endpoint GENE_BASE ?g ''nematode_orthologs'']"
    by (simp_all add: s7)
  have d8: "data s8 = AList.update ''other_orthologs'' (flatten os) (data s7)"
    and r8: "requests s8 = requests s7 @ [endpoint GENE_BASE ?g ''other_orthologs'']"
    by (simp_all add: s8)
  have pid8: "map_of (data s8) ''protein_id'' = Some (PList ids)"
    by (simp add: d8 d7 d6 k5 d4 update_conv')
  from best_human_block_returns [OF b9 pid8] obtain ps cs where
    ps: "ids = map PStr ps" and cs: "best_matches nw ps = Inr cs" and
    s9: "s9 = s8\<lparr>data := AList.update ''best_human_ortholog'' (PList cs) (data s8),
                  requests := requests s8 @
                    map (\<lambda>p. endpoint PROTEIN_BASE p ''best_human_match'') ps\<rparr>"
    by blast
  have d9: "data s9 = AList.update ''best_human_ortholog'' (PList cs) (data s8)"
    and r9: "requests s9 = requests s8 @
               map (\<lambda>p. endpoint PROTEIN_BASE p ''best_human_match'') ps"
    by (simp_all add: s9)
  have pid9: "map_of (data s9) ''protein_id'' = Some (PList ids)"
    using pid8 by (simp add: d9 update_conv')
  from joinIfExtant_returns [OF b10 pid9] obtain ps' where
    "ids = map PStr ps'" and
    s10': "s10 = s9\<lparr>data := AList.update ''protein_id'' (flatten ps') (data s9)\<rparr>"
    by blast
  with ps have s10: "s10 = s9\<lparr>data := AList.update ''protein_id'' (flatten ps) (data s9)\<rparr>"
    by simp
  have d10: "data s10 = AList.update ''protein_id'' (flatten ps) (data s9)"
    and r10: "requests s10 = requests s9"
    by (simp_all add: s10)
  have "map_of (data s10) ''best_human_ortholog'' = Some (PList cs)"
    by (simp add: d10 d9 update_conv')
  from joinIfExtant_returns [OF b11 this] obtain bs where
    bs: "cs = map PStr bs" and
    s': "s' = s10\<lparr>data := AList.update ''best_human_ortholog'' (flatten bs) (data s10)\<rparr>"
    by blast
  from ids ps have pe: "protein_entries gm ps"
    by (auto simp: protein_entries_def collected_def split: if_splits)
  have d11: "data s' = AList.update ''best_human_ortholog'' (flatten bs) (data s10)"
    and r11: "requests s' = requests s10"
    by (simp_all add: s')
  have rq: "requests s' = requests s @ map (endpoint GENE_BASE ?g) gene_fields @
                     map (\<lambda>p. endpoint PROTEIN_BASE p ''best_human_match'') ps"
    by (simp add: r11 r10 r9 r8 r7 r6 r5 r4 r3 r2 s1 gene_fields_def)
  have m: "\<And>k. map_of (data s') k =
     ((map_of (data s5))(''human_orthologs'' \<mapsto> flatten hs, ''nematode_orthologs'' \<mapsto> flatten ns,
        ''other_orthologs'' \<mapsto> flatten os, ''protein_id'' \<mapsto> flatten ps,
        ''best_human_ortholog'' \<mapsto> flatten bs)) k"
    by (simp add: d11 d10 d9 d8 d7 d6 update_conv')
  have m4: "\<And>k. map_of (data s4) k =
     ((map_of (data s1))(''sequence_name'' \<mapsto> sq, ''description'' \<mapsto> tx, ''protein_id'' \<mapsto> PList ids)) k"
    by (simp add: d4 d3 d2 update_conv')
  show ?thesis
  proof (rule that [OF sq dv tx gm pe gc hv hs nv ns ov os cs [unfolded bs] rq])
    show "map_of (data s') ''sequence_name'' = Some sq" by (simp add: m k5 m4)
    show "map_of (data s') ''description'' = Some tx" by (simp add: m k5 m4)
    show "map_of (data s') ''protein_id'' = Some (flatten ps)" by (simp add: m)
    show "map_of (data s') ''human_orthologs'' = Some (flatten hs)" by (simp add: m)
    show "map_of (data s') ''nematode_orthologs'' = Some (flatten ns)" by (simp add: m)
    show "map_of (data s') ''other_orthologs'' = Some (flatten os)" by (simp add: m)
    show "map_of (data s') ''best_human_ortholog'' = Some (flatten bs)" by (simp add: m)
    show "map_of (data s') ''up/down'' = map_of (data s) ''up/down'' \<or>
       (\<exists>v. map_of (data s') ''up/down'' = Some (PStr v))"
      using s1(3) by (simp add: m k5 m4)
    show "map_of (data s') ''gene_class'' = map_of (data s) ''gene_class'' \<or>
       (\<exists>t l. py_getitem gc ''tag'' = Inr t \<and> py_getitem t ''label'' = Inr l \<and>
              map_of (data s') ''gene_class'' = Some l)"
      using g5 s1(2) [of "''gene_class''"] by (simp add: m m4)
    show "map_of (data s') k = map_of (data s) k"
      if "k \<notin> {''up/down'', ''sequence_name'', ''description'', ''protein_id'', ''gene_class'',
              ''human_orthologs'', ''nematode_orthologs'', ''other_orthologs'',
              ''best_human_ortholog''}" for k
      using that s1(2) [of k] k5 [of k] by (simp add: m m4)
  qed
qed

subsection \<open>CuffLinkDatabase\<close>

lemma find_append:
  "List.find P (xs @ ys) = (case List.find P xs of None \<Rightarrow> List.find P ys | Some x \<Rightarrow> Some x)"
  by (induction xs) simp_all

lemma read_rows_result:
  "read_rows hs rows d =
     (if [] \<in> set rows then Inl IndexError
      else Inr (\<lambda>k. case List.find (\<lambda>row. hd row = k) (rev rows) of
                      None \<Rightarrow> d k
                    | Some row \<Rightarrow> Some (dict_zip hs row)))"
proof (induction hs rows d rule: read_rows.induct)
  case (1 hs d)
  then show ?case by simp
next
  case (2 hs rows d)
  then show ?case by simp
next
  case (3 hs c cs rows d)
  have mem: "[] \<in> set ((c # cs) # rows) \<longleftrightarrow> [] \<in> set rows" by simp
  have eq: "(\<lambda>k. case List.find (\<lambda>row. hd row = k) (rev rows) of
               None \<Rightarrow> (d(c \<mapsto> dict_zip hs (c # cs))) k
             | Some row \<Rightarrow> Some (dict_zip hs row))
      = (\<lambda>k. case List.find (\<lambda>row. hd row = k) (rev ((c # cs) # rows)) of
               None \<Rightarrow> d k
             | Some row \<Rightarrow> Some (dict_zip hs row))"
    by (rule ext) (simp add: find_append split: option.splits)
  show ?case
    by (subst read_rows.simps, subst "3.IH", subst eq, subst mem) (rule refl)
qed

lemma dom_dict_zip: "dom (dict_zip hs row) = set (take (length row) hs)"
proof -
  have "dom (dict_zip hs row) = set (map fst (zip hs row))"
    by (simp add: dict_zip_def dom_map_of_conv_image_fst)
  also have "map fst (zip hs row) = take (length row) hs"
    by (simp add: map_fst_zip_take min_def)
  finally show ?thesis .
qed

lemma dict_zip_nth:
  assumes "distinct hs" and "i < length hs" and "i < length row"
  shows "dict_zip hs row (hs ! i) = Some (row ! i)"
proof -
  have "distinct (map fst (rev (zip hs row)))"
    using assms(1) by (simp add: rev_map [symmetric] map_fst_zip_take)
  moreover have "(hs ! i, row ! i) \<in> set (rev (zip hs row))"
    using assms(2,3) by (auto simp: in_set_zip)
  ultimately show ?thesis
    by (simp add: dict_zip_def)
qed

subsection \<open>OutputCSV\<close>

lemma scan_ids_False: "scan_ids ws False = Inr False"
  by (induction ws) simp_all

lemma scan_ids_returns:
  "scan_ids ws b = Inr b' \<Longrightarrow> b' = (b \<and> \<not> (\<exists>w \<in> set ws. xloc_record w))"
proof (induction ws arbitrary: b)
  case Nil
  then show ?case by simp
next
  case (Cons w ws)
  show ?case
  proof (cases b)
    case False
    with Cons.prems show ?thesis by (simp add: scan_ids_False)
  next
    case True
    show ?thesis
    proof (cases "map_of (describe w) ''db_id''")
      case None
      then have nk: "''db_id'' \<notin> fst ` set (describe w)"
        by (simp add: map_of_eq_None_iff)
      with Cons.prems True have "scan_ids ws True = Inr b'"
        by (cases "describe w = []") (simp_all add: ebind_def)
      from Cons.IH [OF this] None show ?thesis
        by (simp add: True xloc_record_def)
    next
      case (Some v)
      then have k: "''db_id'' \<in> fst ` set (describe w)"
        by (metis map_of_eq_None_iff option.distinct(1))
      then have ne: "describe w \<noteq> []" by auto
      from Cons.prems True Some k ne obtain c where
        c: "startswith v ''XLOC'' = Inr c" and
        rest: "scan_ids ws (\<not> c) = Inr b'"
        by (cases "startswith v ''XLOC''") (auto simp: ebind_def split: if_splits)
      from c Some have x: "xloc_record w = c"
        by (cases v) (auto simp: startswith_def xloc_record_def)
      from Cons.IH [OF rest] x show ?thesis
        by (auto simp: True)
    qed
  qed
qed

lemma scan_ids_True:
  "scan_ids ws True = Inr True \<Longrightarrow> \<not> (\<exists>w \<in> set ws. xloc_record w)"
  by (drule scan_ids_returns) simp

lemma preserves_open_w [simp]: "preserves objects (open_w writable p)"
  by (simp add: preserves_def open_w_def)

lemma preserves_write_row [simp]: "preserves objects (write_row p row)"
  by (simp add: preserves_def write_row_def)

lemma preserves_writeheader [simp]: "preserves objects (writeheader self)"
  by (simp add: preserves_def writeheader_def write_row_def)

lemma preserves_writerow [simp]: "preserves objects (writerow self rowdict)"
  by (simp add: preserves_def writerow_def write_row_def)

lemma preserves_writing:
  "preserves objects
     (bind (open_w writable (path self)) (\<lambda>_.
      bind (writeheader self) (\<lambda>_.
      for_each ws (\<lambda>wormData. writerow self (describe wormData)))))"
  by (intro preserves_bind preserves_for_each) simp_all

lemma list_remove_returns:
  "list_remove r x s = (Inr (), s') \<longleftrightarrow>
     x \<in> set (objects s r) \<and> s' = s\<lparr>objects := (objects s)(r := remove1 x (objects s r))\<rparr>"
  by (auto simp: list_remove_def)

lemma writerow_loop_returns:
  assumes "for_each ws (\<lambda>wormData. writerow self (describe wormData)) s = (Inr (), s')"
    and "files s (path self) = Some rows"
  shows "objects s' = objects s \<and>
         files s' (path self) = Some (rows @ map (cells (objects s (headers self))) ws)"
  using assms
proof (induction ws arbitrary: s rows)
  case Nil
  then show ?case by (simp add: ret_apply)
next
  case (Cons w ws)
  from Cons.prems(1) obtain s1 where
    step: "writerow self (describe w) s = (Inr (), s1)" and
    rest: "for_each ws (\<lambda>wormData. writerow self (describe wormData)) s1 = (Inr (), s')"
    by (auto simp: bind_returns)
  from step Cons.prems(2) have
    l1: "objects s1 = objects s" and
    f1: "files s1 (path self) = Some (rows @ [cells (objects s (headers self)) w])"
    by (auto simp: writerow_def write_row_def cells_def split: if_splits)
  from Cons.IH [OF rest f1] l1 show ?case by simp
qed

lemma writing_returns:
  assumes "bind (open_w writable (path self)) (\<lambda>_.
           bind (writeheader self) (\<lambda>_.
           for_each ws (\<lambda>wormData. writerow self (describe wormData)))) s = (Inr (), s')"
  shows "objects s' = objects s \<and>
         files s' (path self) =
           Some (map PStr (objects s (headers self)) # map (cells (objects s (headers self))) ws)"
proof -
  from assms obtain s1 s2 where
    s1: "s1 = s\<lparr>files := (files s)(path self \<mapsto> [])\<rparr>" and
    s2: "writeheader self s1 = (Inr (), s2)" and
    loop: "for_each ws (\<lambda>wormData. writerow self (describe wormData)) s2 = (Inr (), s')"
    by (auto simp: bind_returns open_w_def split: if_splits)
  from s2 s1 have l2: "objects s2 = objects s" and
    f2: "files s2 (path self) = Some [map PStr (objects s (headers self))]"
    by (auto simp: writeheader_def write_row_def)
  from writerow_loop_returns [OF loop f2] l2 show ?thesis by simp
qed

subsection \<open>The python3 conversion\<close>

lemma preserves_up_down_block3:
  "k \<noteq> ''up/down'' \<Longrightarrow> preserves (\<lambda>s. map_of (data s) k) (up_down_block3 db d)"
  unfolding up_down_block3_def
  by (intro preserves_bind preserves_lift preserves_set_item)

lemma preserves_gene_models_block3:
  "k \<noteq> ''protein_id'' \<Longrightarrow> preserves (\<lambda>s. map_of (data s) k) (gene_models_block3 nw g)"
  unfolding gene_models_block3_def
  by (intro preserves_bind preserves_fetch preserves_set_item preserves_lift preserves_if
        preserves_for_each preserves_append_item preserves_ret preserves_joinIfExtant)

lemma preserves_gene_class_block3:
  "k \<noteq> ''gene_class'' \<Longrightarrow> preserves (\<lambda>s. map_of (data s) k) (gene_class_block3 nw g)"
  unfolding gene_class_block3_def
  by (intro preserves_bind preserves_fetch preserves_set_item)

lemma preserves_best_human_block3:
  "k \<noteq> ''best_human_ortholog'' \<Longrightarrow> preserves (\<lambda>s. map_of (data s) k) (best_human_block3 nw)"
  unfolding best_human_block3_def
  by (intro preserves_bind preserves_set_item preserves_get_item preserves_lift preserves_if
        preserves_for_each preserves_best_human_match preserves_joinIfExtant)

lemma up_down_block3_returns:
  "up_down_block3 db d s = (Inr (), s') \<longleftrightarrow>
     (\<exists>i row v. d = Some i \<and> db i = Some row \<and> row ''log2(fold_change)'' = Some v \<and>
        s' = s\<lparr>data := AList.update ''up/down'' (PStr v) (data s)\<rparr>)"
  by (auto simp: up_down_block3_def fold_change_def CuffLinkDatabase_get_def bind_returns
        lift_apply set_item_returns split: option.splits)

lemma gene_class_block3_returns:
  "gene_class_block3 nw g s = (Inr (), s') \<longleftrightarrow>
     (\<exists>v. lookup nw GENE_BASE g ''gene_class'' = Inr v \<and>
          s' = s\<lparr>data := AList.update ''gene_class'' v (data s),
                 requests := requests s @ [endpoint GENE_BASE g ''gene_class'']\<rparr>)"
  by (auto simp: gene_class_block3_def bind_returns fetch_returns' set_item_returns)

lemma gene_models_block3_returns:
  assumes "gene_models_block3 nw g s = (Inr (), s')"
  shows "\<exists>gm ps. lookup nw GENE_BASE g ''gene_models'' = Inr gm \<and> protein_entries gm ps \<and>
           s' = s\<lparr>data := AList.update ''protein_id'' (flatten ps) (data s),
                  requests := requests s @ [endpoint GENE_BASE g ''gene_models'']\<rparr>"
proof -
  from assms obtain gm s1 s2 items s3 where
    gm: "lookup nw GENE_BASE g ''gene_models'' = Inr gm" and
    s1: "s1 = s\<lparr>requests := requests s @ [endpoint GENE_BASE g ''gene_models'']\<rparr>" and
    s2: "s2 = s1\<lparr>data := AList.update ''protein_id'' (PList []) (data s1)\<rparr>" and
    items: "ebind (py_getitem gm ''table'') py_iter = Inr items" and
    loop: "for_each items (\<lambda>item.
             bind (lift (has_protein_id item)) (\<lambda>c.
               if c then bind (lift (protein_id_of item)) (append_item ''protein_id'')
               else ret ())) s2 = (Inr (), s3)" and
    j: "joinIfExtant ''protein_id'' s3 = (Inr (), s')"
    by (auto simp: gene_models_block3_def bind_returns fetch_returns' set_item_returns lift_apply)
  from s2 have pid: "map_of (data s2) ''protein_id'' = Some (PList [])"
    by (simp add: update_conv')
  from for_each_filter_append_returns [OF loop pid] obtain ids where
    ok: "list_all (\<lambda>item. has_protein_id item = Inr True \<or> has_protein_id item = Inr False) items" and
    ids: "map protein_id_of (filter (\<lambda>item. has_protein_id item = Inr True) items) = map Inr ids" and
    s3: "s3 = s2\<lparr>data := AList.update ''protein_id'' (PList ([] @ ids)) (data s2)\<rparr>"
    by blast
  from s3 have "map_of (data s3) ''protein_id'' = Some (PList ids)"
    by (simp add: update_conv')
  from joinIfExtant_returns [OF j this] obtain ps where
    ps: "ids = map PStr ps" and
    s': "s' = s3\<lparr>data := AList.update ''protein_id'' (flatten ps) (data s3)\<rparr>"
    by blast
  from items obtain t where t: "py_getitem gm ''table'' = Inr t"
    by (auto simp: ebind_returns)
  then have "truthy gm \<and> py_contains ''table'' gm = Inr True"
    by (cases gm) (auto split: option.splits dest: map_of_SomeD intro: rev_image_eqI)
  with items ok ids ps have "protein_entries gm ps"
    by (simp add: protein_entries_def collected_def)
  with gm s' s3 s2 s1 show ?thesis
    by (intro exI [of _ gm] exI [of _ ps]) simp
qed

lemma chars_are_strings: "map (\<lambda>c. PStr [c]) j = map PStr qs \<longleftrightarrow> qs = map (\<lambda>c. [c]) j"
proof -
  have "map (\<lambda>c. PStr [c]) j = map PStr (map (\<lambda>c. [c]) j)" by simp
  then show ?thesis by (metis map_PStr_eq)
qed

lemma best_human_block3_returns:
  assumes "best_human_block3 nw s = (Inr (), s')"
    and "map_of (data s) ''protein_id'' = Some (flatten ps)"
  shows "ps \<noteq> [] \<and>
         (\<exists>bs. best_matches nw (map (\<lambda>c. [c]) (comma_joined ps)) = Inr (map PStr bs) \<and>
            s' = s\<lparr>data := AList.update ''best_human_ortholog'' (flatten bs) (data s),
                   requests := requests s @
                     map (\<lambda>p. endpoint PROTEIN_BASE p ''best_human_match'')
                         (map (\<lambda>c. [c]) (comma_joined ps))\<rparr>)"
proof -
  define s1 where "s1 = s\<lparr>data := AList.update ''best_human_ortholog'' (PList []) (data s)\<rparr>"
  have pid: "map_of (data s1) ''protein_id'' = Some (flatten ps)"
    using assms(2) by (simp add: s1_def update_conv')
  have bho: "map_of (data s1) ''best_human_ortholog'' = Some (PList [])"
    by (simp add: s1_def update_conv')
  from assms(1) pid obtain s2 where
    step: "(if \<not> (has_len (flatten ps) \<and> \<not> is_str (flatten ps)) then
             bind (lift (py_iter (flatten ps))) (\<lambda>proteinIDs.
             for_each proteinIDs (best_human_match nw))
           else best_human_match nw (flatten ps)) s1 = (Inr (), s2)" and
    j: "joinIfExtant ''best_human_ortholog'' s2 = (Inr (), s')"
    by (auto simp: best_human_block3_def bind_returns set_item_returns get_item_returns
          s1_def [symmetric])
  have ne: "ps \<noteq> []"
  proof
    assume "ps = []"
    with step show False
      by (simp add: flatten_def has_len_def is_str_def raise_apply)
  qed
  with step have loop:
    "for_each (map (\<lambda>c. PStr [c]) (comma_joined ps)) (best_human_match nw) s1 = (Inr (), s2)"
    by (simp add: flatten_def has_len_def is_str_def)
  from best_human_loop_returns [OF loop bho] obtain qs cs where
    qs: "map (\<lambda>c. PStr [c]) (comma_joined ps) = map PStr qs" and
    cs: "best_matches nw qs = Inr cs" and
    s2: "s2 = s1\<lparr>data := AList.update ''best_human_ortholog'' (PList ([] @ cs)) (data s1),
                  requests := requests s1 @
                    map (\<lambda>p. endpoint PROTEIN_BASE p ''best_human_match'') qs\<rparr>"
    by blast
  from qs have qs': "qs = map (\<lambda>c. [c]) (comma_joined ps)"
    by (simp add: chars_are_strings)
  from s2 have "map_of (data s2) ''best_human_ortholog'' = Some (PList cs)"
    by (simp add: update_conv')
  from joinIfExtant_returns [OF j this] obtain bs where
    bs: "cs = map PStr bs" and
    s': "s' = s2\<lparr>data := AList.update ''best_human_ortholog'' (flatten bs) (data s2)\<rparr>"
    by blast
  from cs bs qs' have a: "best_matches nw (map (\<lambda>c. [c]) (comma_joined ps)) = Inr (map PStr bs)"
    by simp
  from s' s2 qs' have b:
    "s' = s\<lparr>data := AList.update ''best_human_ortholog'' (flatten bs) (data s),
            requests := requests s @
               map (\<lambda>p. endpoint PROTEIN_BASE p ''best_human_match'')
                   (map (\<lambda>c. [c]) (comma_joined ps))\<rparr>"
    by (simp add: s1_def)
  from ne a b show ?thesis
    by (intro conjI exI [of _ bs])
qed


lemma populate3_returnsE:
  assumes "populate3 nw db s = (Inr (), s')"
  obtains i row v sq dv tx gm ps gc hv hs nv ns ov os bs where
    "dbId s = Some i" "db i = Some row" "row ''log2(fold_change)'' = Some v"
    "lookup nw GENE_BASE (geneID s) ''sequence_name'' = Inr sq"
    "lookup nw GENE_BASE (geneID s) ''concise_description'' = Inr dv"
    "py_getitem dv ''text'' = Inr tx"
    "lookup nw GENE_BASE (geneID s) ''gene_models'' = Inr gm"
    "protein_entries gm ps" "ps \<noteq> []"
    "lookup nw GENE_BASE (geneID s) ''gene_class'' = Inr gc"
    "lookup nw GENE_BASE (geneID s) ''human_orthologs'' = Inr hv"
    "ortholog_entries hv hs"
    "lookup nw GENE_BASE (geneID s) ''nematode_orthologs'' = Inr nv"
    "ortholog_entries nv ns"
    "lookup nw GENE_BASE (geneID s) ''other_orthologs'' = Inr ov"
    "ortholog_entries ov os"
    "best_matches nw (map (\<lambda>c. [c]) (comma_joined ps)) = Inr (map PStr bs)"
    "requests s' = requests s @ map (endpoint GENE_BASE (geneID s)) gene_fields @
                     map (\<lambda>p. endpoint PROTEIN_BASE p ''best_human_match'')
                         (map (\<lambda>c. [c]) (comma_joined ps))"
    "map_of (data s') ''up/down'' = Some (PStr v)"
    "map_of (data s') ''sequence_name'' = Some sq"
    "map_of (data s') ''description'' = Some tx"
    "map_of (data s') ''protein_id'' = Some (flatten ps)"
    "map_of (data s') ''gene_class'' = Some gc"
    "map_of (data s') ''human_orthologs'' = Some (flatten hs)"
    "map_of (data s') ''nematode_orthologs'' = Some (flatten ns)"
    "map_of (data s') ''other_orthologs'' = Some (flatten os)"
    "map_of (data s') ''best_human_ortholog'' = Some (flatten bs)"
    "\<And>k. k \<notin> {''up/down'', ''sequence_name'', ''description'', ''protein_id'', ''gene_class'',
              ''human_orthologs'', ''nematode_orthologs'', ''other_orthologs'',
              ''best_human_ortholog''} \<Longrightarrow> map_of (data s') k = map_of (data s) k"
proof -
  let ?g = "geneID s"
  from assms obtain s1 s2 s3 s4 s5 s6 s7 s8 where
    b1: "up_down_block3 db (dbId s) s = (Inr (), s1)" and
    b2: "sequence_block nw ?g s1 = (Inr (), s2)" and
    b3: "description_block nw ?g s2 = (Inr (), s3)" and
    b4: "gene_models_block3 nw ?g s3 = (Inr (), s4)" and
    b5: "gene_class_block3 nw ?g s4 = (Inr (), s5)" and
    b6: "orthologs_block nw ?g ''human_orthologs'' s5 = (Inr (), s6)" and
    b7: "orthologs_block nw ?g ''nematode_orthologs'' s6 = (Inr (), s7)" and
    b8: "orthologs_block nw ?g ''other_orthologs'' s7 = (Inr (), s8)" and
    b9: "best_human_block3 nw s8 = (Inr (), s')"
    by (auto simp: populate3_def bind_returns)
  from b1 obtain i row v where
    i: "dbId s = Some i" and row: "db i = Some row" and v: "row ''log2(fold_change)'' = Some v" and
    s1: "s1 = s\<lparr>data := AList.update ''up/down'' (PStr v) (data s)\<rparr>"
    by (auto simp: up_down_block3_returns)
  from b2 obtain sq where sq: "lookup nw GENE_BASE ?g ''sequence_name'' = Inr sq" and
    s2: "s2 = s1\<lparr>data := AList.update ''sequence_name'' sq (data s1),
                  requests := requests s1 @ [endpoint GENE_BASE ?g ''sequence_name'']\<rparr>"
    by (auto simp: sequence_block_returns)
  from b3 obtain dv tx where dv: "lookup nw GENE_BASE ?g ''concise_description'' = Inr dv" and
    tx: "py_getitem dv ''text'' = Inr tx" and
    s3: "s3 = s2\<lparr>data := AList.update ''description'' tx (data s2),
                  requests := requests s2 @ [endpoint GENE_BASE ?g ''concise_description'']\<rparr>"
    by (auto simp: description_block_returns)
  from gene_models_block3_returns [OF b4] obtain gm ps where
    gm: "lookup nw GENE_BASE ?g ''gene_models'' = Inr gm" and pe: "protein_entries gm ps" and
    s4: "s4 = s3\<lparr>data := AList.update ''protein_id'' (flatten ps) (data s3),
                  requests := requests s3 @ [endpoint GENE_BASE ?g ''gene_models'']\<rparr>"
    by blast
  from b5 obtain gc where gc: "lookup nw GENE_BASE ?g ''gene_class'' = Inr gc" and
    s5: "s5 = s4\<lparr>data := AList.update ''gene_class'' gc (data s4),
                  requests := requests s4 @ [endpoint GENE_BASE ?g ''gene_class'']\<rparr>"
    by (auto simp: gene_class_block3_returns)
  from orthologs_block_returns [OF b6] obtain hv hs where
    hv: "lookup nw GENE_BASE ?g ''human_orthologs'' = Inr hv" and hs: "ortholog_entries hv hs" and
    s6: "s6 = s5\<lparr>data := AList.update ''human_orthologs'' (flatten hs) (data s5),
                  requests := requests s5 @ [endpoint GENE_BASE ?g ''human_orthologs'']\<rparr>"
    by blast
  from orthologs_block_returns [OF b7] obtain nv ns where
    nv: "lookup nw GENE_BASE ?g ''nematode_orthologs'' = Inr nv" and ns: "ortholog_entries nv ns" and
    s7: "s7 = s6\<lparr>data := AList.update ''nematode_orthologs'' (flatten ns) (data s6),
                  requests := requests s6 @ [endpoint GENE_BASE ?g ''nematode_orthologs'']\<rparr>"
    by blast
  from orthologs_block_returns [OF b8] obtain ov os where
    ov: "lookup nw GENE_BASE ?g ''other_orthologs'' = Inr ov" and os: "ortholog_entries ov os" and
    s8: "s8 = s7\<lparr>data := AList.update ''other_orthologs'' (flatten os) (data s7),
                  requests := requests s7 @ [endpoint GENE_BASE ?g ''other_orthologs'']\<rparr>"
    by blast
  have d1: "data s1 = AList.update ''up/down'' (PStr v) (data s)"
    and r1: "requests s1 = requests s"
    by (simp_all add: s1)
  have d2: "data s2 = AList.update ''sequence_name'' sq (data s1)"
    and r2: "requests s2 = requests s1 @ [endpoint GENE_BASE ?g ''sequence_name'']"
    by (simp_all add: s2)
  have d3: "data s3 = AList.update ''description'' tx (data s2)"
    and r3: "requests s3 = requests s2 @ [endpoint GENE_BASE ?g ''concise_description'']"
    by (simp_all add: s3)
  have d4: "data s4 = AList.update ''protein_id'' (flatten ps) (data s3)"
    and r4: "requests s4 = requests s3 @ [endpoint GENE_BASE ?g ''gene_models'']"
    by (simp_all add: s4)
  have d5: "data s5 = AList.update ''gene_class'' gc (data s4)"
    and r5: "requests s5 = requests s4 @ [endpoint GENE_BASE ?g ''gene_class'']"
    by (simp_all add: s5)
  have d6: "data s6 = AList.update ''human_orthologs'' (flatten hs) (data s5)"
    and r6: "requests s6 = requests s5 @ [endpoint GENE_BASE ?g ''human_orthologs'']"
    by (simp_all add: s6)
  have d7: "data s7 = AList.update ''nematode_orthologs'' (flatten ns) (data s6)"
    and r7: "requests s7 = requests s6 @ [endpoint GENE_BASE ?g ''nematode_orthologs'']"
    by (simp_all add: s7)
  have d8: "data s8 = AList.update ''other_orthologs'' (flatten os) (data s7)"
    and r8: "requests s8 = requests s7 @ [endpoint GENE_BASE ?g ''other_orthologs'']"
    by (simp_all add: s8)
  have pid8: "map_of (data s8) ''protein_id'' = Some (flatten ps)"
    by (simp add: d8 d7 d6 d5 d4 update_conv')
  from best_human_block3_returns [OF b9 pid8] obtain bs where
    ne: "ps \<noteq> []" and
    bs: "best_matches nw (map (\<lambda>c. [c]) (comma_joined ps)) = Inr (map PStr bs)" and
    s': "s' = s8\<lparr>data := AList.update ''best_human_ortholog'' (flatten bs) (data s8),
                  requests := requests s8 @
                    map (\<lambda>p. endpoint PROTEIN_BASE p ''best_human_match'')
                        (map (\<lambda>c. [c]) (comma_joined ps))\<rparr>"
    by blast
  have d9: "data s' = AList.update ''best_human_ortholog'' (flatten bs) (data s8)"
    and r9: "requests s' = requests s8 @
                    map (\<lambda>p. endpoint PROTEIN_BASE p ''best_human_match'')
                        (map (\<lambda>c. [c]) (comma_joined ps))"
    by (simp_all add: s')
  have rq: "requests s' = requests s @ map (endpoint GENE_BASE ?g) gene_fields @
                     map (\<lambda>p. endpoint PROTEIN_BASE p ''best_human_match'')
                         (map (\<lambda>c. [c]) (comma_joined ps))"
    by (simp add: r9 r8 r7 r6 r5 r4 r3 r2 r1 gene_fields_def)
  have m: "\<And>k. map_of (data s') k =
     ((map_of (data s))(''up/down'' \<mapsto> PStr v, ''sequence_name'' \<mapsto> sq, ''description'' \<mapsto> tx,
        ''protein_id'' \<mapsto> flatten ps, ''gene_class'' \<mapsto> gc,
        ''human_orthologs'' \<mapsto> flatten hs, ''nematode_orthologs'' \<mapsto> flatten ns,
        ''other_orthologs'' \<mapsto> flatten os, ''best_human_ortholog'' \<mapsto> flatten bs)) k"
    by (simp only: d9 d8 d7 d6 d5 d4 d3 d2 d1 update_conv')
  show ?thesis
  proof (rule that [OF i row v sq dv tx gm pe ne gc hv hs nv ns ov os bs rq])
    show "map_of (data s') ''up/down'' = Some (PStr v)" by (simp add: m)
    show "map_of (data s') ''sequence_name'' = Some sq" by (simp add: m)
    show "map_of (data s') ''description'' = Some tx" by (simp add: m)
    show "map_of (data s') ''protein_id'' = Some (flatten ps)" by (simp add: m)
    show "map_of (data s') ''gene_class'' = Some gc" by (simp add: m)
    show "map_of (data s') ''human_orthologs'' = Some (flatten hs)" by (simp add: m)
    show "map_of (data s') ''nematode_orthologs'' = Some (flatten ns)" by (simp add: m)
    show "map_of (data s') ''other_orthologs'' = Some (flatten os)" by (simp add: m)
    show "map_of (data s') ''best_human_ortholog'' = Some (flatten bs)" by (simp add: m)
    show "map_of (data s') k = map_of (data s) k"
      if "k \<notin> {''up/down'', ''sequence_name'', ''description'', ''protein_id'', ''gene_class'',
              ''human_orthologs'', ''nematode_orthologs'', ''other_orthologs'',
              ''best_human_ortholog''}" for k
      using that by (simp add: m)
  qed
qed

lemmas eval_defs = WormData_init_def populate_def up_down_block_def sequence_block_def
  WormData_init3_def populate3_def up_down_block3_def gene_models_block3_def
  gene_class_block3_def best_human_block3_def has_len_def
  description_block_def gene_models_block_def gene_class_block_def orthologs_block_def
  best_human_block_def best_human_match_def joinIfExtant_def fetch_def url_of_def
  requests_get_def decode_def extract_data_def set_item_def get_item_def append_item_def
  has_protein_id_def protein_id_of_def ortholog_label_def is_str_def py_join_def
  fold_change_def CuffLinkDatabase_get_def describe_def
  bind_def ret_def raise_def lift_def

lemmas scenario_defs = net_scenario_def net_nested_def net_no_description_def net_down_def
  net_not_json_def net_all_def page_def net_no_protein_def page_no_protein_def
  store_scenario_def blank_record_def GENE_BASE_def PROTEIN_BASE_def
  reply_def entry_def model_row_def dict_zip_def

subsection \<open>The scenario\<close>

lemma scenario_run:
  "WormData_init net_scenario (Some ''XLOC_001'') ''WBGene00001234'' store_scenario =
     (Inr (), record_scenario)"
  by (simp add: eval_defs scenario_defs record_scenario_def endpoint_def gene_fields_def)

lemma WormData_init_unprefixed:
  "\<not> prefix ''WBGene'' g \<Longrightarrow>
   WormData_init nw d g db =
     (Inr (), \<lparr>geneID = g, dbId = d, data = [(''gene_id'', PStr g)], requests = []\<rparr>)"
  by (simp add: WormData_init_def populate_def)

lemma python3_run:
  "WormData_init3 net_all (Some ''XLOC_001'') g store_scenario = (Inr (), record_python3 g)"
  by (simp add: eval_defs scenario_defs record_python3_def endpoint_def gene_fields_def)

lemma python2_run_all:
  "fst (WormData_init net_all (Some ''XLOC_001'') ''WBGene00001234'' store_scenario) = Inr () \<and>
   requests (snd (WormData_init net_all (Some ''XLOC_001'') ''WBGene00001234'' store_scenario))
     = map (endpoint GENE_BASE ''WBGene00001234'') gene_fields @
       [endpoint PROTEIN_BASE ''CE12345'' ''best_human_match'']"
  by (simp add: eval_defs scenario_defs endpoint_def gene_fields_def)

lemma python2_run_all_best:
  "map_of (describe (snd (WormData_init net_all (Some ''XLOC_001'') ''WBGene00001234''
                            store_scenario))) ''best_human_ortholog'' = Some (PStr ''human X'')"
  by (simp add: eval_defs scenario_defs)

lemma python2_run_no_protein:
  "fst (WormData_init net_no_protein (Some ''XLOC_001'') ''WBGene00001234'' store_scenario)
     = Inr () \<and>
   map_of (describe (snd (WormData_init net_no_protein (Some ''XLOC_001'') ''WBGene00001234''
                            store_scenario))) ''protein_id'' = Some PNone \<and>
   map_of (describe (snd (WormData_init net_no_protein (Some ''XLOC_001'') ''WBGene00001234''
                            store_scenario))) ''best_human_ortholog'' = Some PNone"
  by (simp add: eval_defs scenario_defs)

lemma python3_run_no_protein:
  "fst (WormData_init3 net_no_protein (Some ''XLOC_001'') ''WBGene00001234'' store_scenario)
     = Inl TypeError \<and>
   map_of (describe (snd (WormData_init3 net_no_protein (Some ''XLOC_001'') ''WBGene00001234''
                            store_scenario))) ''protein_id'' = Some PNone \<and>
   length (requests (snd (WormData_init3 net_no_protein (Some ''XLOC_001'') ''WBGene00001234''
                            store_scenario))) = 7"
  by (simp add: eval_defs scenario_defs)

lemma python2_write_run:
  "fst (OutputCSV_write any_path (OutputCSV_init ''out.csv'' 0) [gene_only ''WBGene00001234'']
          world_scenario) = Inr () \<and>
   objects (snd (OutputCSV_write any_path (OutputCSV_init ''out.csv'' 0)
                   [gene_only ''WBGene00001234''] world_scenario)) 0
     = [''gene_id'', ''sequence_name'']"
  by (simp add: OutputCSV_write_def OutputCSV_init_def gene_only_def world_scenario_def
        header_scenario_def any_path_def describe_def list_remove_def open_w_def
        writeheader_def writerow_def write_row_def bind_def lift_def ret_def)

lemma python3_write_run:
  "OutputCSV_write3 any_path (OutputCSV_init ''out.csv'' 0) [gene_only ''WBGene00001234'']
     world_scenario
   = (Inl TypeError, world_scenario\<lparr>files := (files world_scenario)(''out.csv'' \<mapsto> [])\<rparr>)"
  by (simp add: OutputCSV_write3_def OutputCSV_init_def open_w_def any_path_def bind_def raise_def)

subsection \<open>python2: the record and the header after a run\<close>

text \<open>
  After the construction returns, every value of the field mapping is a string or
  \<open>None\<close>, except that \<open>sequence_name\<close>, \<open>description\<close> and \<open>gene_class\<close>
  hold what the responses carried.
\<close>

lemma python2_fields_scalar:
  assumes "WormData_init nw d g db = (Inr (), w)"
  shows "(\<forall>k v. map_of (describe w) k = Some v \<longrightarrow>
            scalar v \<or> k = ''sequence_name'' \<or> k = ''description'' \<or> k = ''gene_class'') \<and>
         (prefix ''WBGene'' g \<longrightarrow>
            (\<exists>sq dv tx gc.
               lookup nw GENE_BASE g ''sequence_name'' = Inr sq \<and>
               map_of (describe w) ''sequence_name'' = Some sq \<and>
               lookup nw GENE_BASE g ''concise_description'' = Inr dv \<and>
               py_getitem dv ''text'' = Inr tx \<and>
               map_of (describe w) ''description'' = Some tx \<and>
               lookup nw GENE_BASE g ''gene_class'' = Inr gc \<and>
               (map_of (describe w) ''gene_class'' = None \<or>
                (\<exists>t l. py_getitem gc ''tag'' = Inr t \<and> py_getitem t ''label'' = Inr l \<and>
                       map_of (describe w) ''gene_class'' = Some l))))"
proof (cases "prefix ''WBGene'' g")
  case False
  with assms have "describe w = [(''gene_id'', PStr g)]"
    by (auto simp: WormData_init_unprefixed describe_def)
  with False show ?thesis by (auto simp: scalar_def split: if_splits)
next
  case True
  let ?s = "\<lparr>geneID = g, dbId = d, data = [(''gene_id'', PStr g)], requests = []\<rparr>"
  from assms have run: "populate nw db ?s = (Inr (), w)"
    by (simp add: WormData_init_def)
  from True have pre: "prefix ''WBGene'' (geneID ?s)" by simp
  from run pre show ?thesis
  proof (rule populate_returnsE)
    fix sq dv tx gm ps gc hv hs nv ns ov os bs
    assume sq: "lookup nw GENE_BASE (geneID ?s) ''sequence_name'' = Inr sq"
      and dv: "lookup nw GENE_BASE (geneID ?s) ''concise_description'' = Inr dv"
      and tx: "py_getitem dv ''text'' = Inr tx"
      and gc: "lookup nw GENE_BASE (geneID ?s) ''gene_class'' = Inr gc"
      and m: "map_of (data w) ''sequence_name'' = Some sq"
        "map_of (data w) ''description'' = Some tx"
        "map_of (data w) ''protein_id'' = Some (flatten ps)"
        "map_of (data w) ''human_orthologs'' = Some (flatten hs)"
        "map_of (data w) ''nematode_orthologs'' = Some (flatten ns)"
        "map_of (data w) ''other_orthologs'' = Some (flatten os)"
        "map_of (data w) ''best_human_ortholog'' = Some (flatten bs)"
      and ud: "map_of (data w) ''up/down'' = map_of (data ?s) ''up/down'' \<or>
               (\<exists>v. map_of (data w) ''up/down'' = Some (PStr v))"
      and cl: "map_of (data w) ''gene_class'' = map_of (data ?s) ''gene_class'' \<or>
               (\<exists>t l. py_getitem gc ''tag'' = Inr t \<and> py_getitem t ''label'' = Inr l \<and>
                  map_of (data w) ''gene_class'' = Some l)"
      and other: "\<And>k. k \<notin> {''up/down'', ''sequence_name'', ''description'', ''protein_id'',
              ''gene_class'', ''human_orthologs'', ''nematode_orthologs'', ''other_orthologs'',
              ''best_human_ortholog''} \<Longrightarrow> map_of (data w) k = map_of (data ?s) k"
    have fl: "scalar (flatten xs)" for xs
      by (simp add: flatten_def scalar_def)
    have "scalar v \<or> k = ''sequence_name'' \<or> k = ''description'' \<or> k = ''gene_class''"
      if kv: "map_of (data w) k = Some v" for k v
    proof (cases "k \<in> {''up/down'', ''sequence_name'', ''description'', ''protein_id'',
              ''gene_class'', ''human_orthologs'', ''nematode_orthologs'', ''other_orthologs'',
              ''best_human_ortholog''}")
      case False
      from other [OF False] kv have "v = PStr g"
        by (simp split: if_splits)
      then show ?thesis by (simp add: scalar_def)
    next
      case True
      then have "k = ''up/down'' \<or> k = ''sequence_name'' \<or> k = ''description'' \<or>
        k = ''protein_id'' \<or> k = ''gene_class'' \<or> k = ''human_orthologs'' \<or>
        k = ''nematode_orthologs'' \<or> k = ''other_orthologs'' \<or> k = ''best_human_ortholog''"
        by simp
      then show ?thesis
      proof (elim disjE)
        assume "k = ''up/down''"
        with ud kv show ?thesis by (auto simp: scalar_def)
      next
        assume "k = ''protein_id''"
        with kv m(3) have "v = flatten ps" by simp
        then show ?thesis by (simp add: fl)
      next
        assume "k = ''human_orthologs''"
        with kv m(4) have "v = flatten hs" by simp
        then show ?thesis by (simp add: fl)
      next
        assume "k = ''nematode_orthologs''"
        with kv m(5) have "v = flatten ns" by simp
        then show ?thesis by (simp add: fl)
      next
        assume "k = ''other_orthologs''"
        with kv m(6) have "v = flatten os" by simp
        then show ?thesis by (simp add: fl)
      next
        assume "k = ''best_human_ortholog''"
        with kv m(7) have "v = flatten bs" by simp
        then show ?thesis by (simp add: fl)
      qed simp_all
    qed
    moreover from cl have "map_of (data w) ''gene_class'' = None \<or>
                (\<exists>t l. py_getitem gc ''tag'' = Inr t \<and> py_getitem t ''label'' = Inr l \<and>
                       map_of (data w) ''gene_class'' = Some l)"
      by simp
    ultimately show ?thesis
      using sq dv tx gc m(1,2) by (simp add: describe_def)
  qed
qed

text \<open>
  For a gene with the prefix, the requests are the seven gene lookups followed by one
  \<open>best_human_match\<close> lookup for each protein identifier collected from the
  \<open>gene_models\<close> table, in the order collected, whether there are none, one or many
  (\<open>protein_id\<close> is still a list at line 251, it is joined at line 269).
\<close>

lemma python2_one_lookup_per_protein:
  assumes "WormData_init nw d g db = (Inr (), w)" and "prefix ''WBGene'' g"
  shows "\<exists>gm ps bs.
           lookup nw GENE_BASE g ''gene_models'' = Inr gm \<and> protein_entries gm ps \<and>
           requests w = map (endpoint GENE_BASE g) gene_fields @
                        map (\<lambda>p. endpoint PROTEIN_BASE p ''best_human_match'') ps \<and>
           best_matches nw ps = Inr (map PStr bs) \<and>
           map_of (describe w) ''best_human_ortholog'' = Some (flatten bs)"
proof -
  let ?s = "\<lparr>geneID = g, dbId = d, data = [(''gene_id'', PStr g)], requests = []\<rparr>"
  from assms(1) have run: "populate nw db ?s = (Inr (), w)"
    by (simp add: WormData_init_def)
  from assms(2) have pre: "prefix ''WBGene'' (geneID ?s)" by simp
  from run pre show ?thesis
  proof (rule populate_returnsE)
    fix sq dv tx gm ps gc hv hs nv ns ov os bs
    assume "lookup nw GENE_BASE (geneID ?s) ''gene_models'' = Inr gm"
      and "protein_entries gm ps"
      and "best_matches nw ps = Inr (map PStr bs)"
      and "requests w = requests ?s @ map (endpoint GENE_BASE (geneID ?s)) gene_fields @
                     map (\<lambda>p. endpoint PROTEIN_BASE p ''best_human_match'') ps"
      and "map_of (data w) ''best_human_ortholog'' = Some (flatten bs)"
    then show ?thesis
      apply -
      apply (rule exI [of _ gm], rule exI [of _ ps], rule exI [of _ bs])
      apply (simp add: describe_def)
      done
  qed
qed

text \<open>
  For a gene with the prefix, each multi-valued field holds the entries collected for
  it, joined in their order, and \<open>None\<close> when there is none.
\<close>

lemma python2_fields_joined:
  assumes "WormData_init nw d g db = (Inr (), w)" and "prefix ''WBGene'' g"
  shows "\<exists>gm ps hv hs nv ns ov os bs.
           lookup nw GENE_BASE g ''gene_models'' = Inr gm \<and> protein_entries gm ps \<and>
           map_of (describe w) ''protein_id'' = Some (flatten ps) \<and>
           lookup nw GENE_BASE g ''human_orthologs'' = Inr hv \<and> ortholog_entries hv hs \<and>
           map_of (describe w) ''human_orthologs'' = Some (flatten hs) \<and>
           lookup nw GENE_BASE g ''nematode_orthologs'' = Inr nv \<and> ortholog_entries nv ns \<and>
           map_of (describe w) ''nematode_orthologs'' = Some (flatten ns) \<and>
           lookup nw GENE_BASE g ''other_orthologs'' = Inr ov \<and> ortholog_entries ov os \<and>
           map_of (describe w) ''other_orthologs'' = Some (flatten os) \<and>
           best_matches nw ps = Inr (map PStr bs) \<and>
           map_of (describe w) ''best_human_ortholog'' = Some (flatten bs)"
proof -
  let ?s = "\<lparr>geneID = g, dbId = d, data = [(''gene_id'', PStr g)], requests = []\<rparr>"
  from assms(1) have run: "populate nw db ?s = (Inr (), w)"
    by (simp add: WormData_init_def)
  from assms(2) have pre: "prefix ''WBGene'' (geneID ?s)" by simp
  from run pre show ?thesis
  proof (rule populate_returnsE)
    fix sq dv tx gm ps gc hv hs nv ns ov os bs
    assume "lookup nw GENE_BASE (geneID ?s) ''gene_models'' = Inr gm"
      and "protein_entries gm ps"
      and "lookup nw GENE_BASE (geneID ?s) ''human_orthologs'' = Inr hv"
      and "ortholog_entries hv hs"
      and "lookup nw GENE_BASE (geneID ?s) ''nematode_orthologs'' = Inr nv"
      and "ortholog_entries nv ns"
      and "lookup nw GENE_BASE (geneID ?s) ''other_orthologs'' = Inr ov"
      and "ortholog_entries ov os"
      and "best_matches nw ps = Inr (map PStr bs)"
      and "map_of (data w) ''protein_id'' = Some (flatten ps)"
      and "map_of (data w) ''human_orthologs'' = Some (flatten hs)"
      and "map_of (data w) ''nematode_orthologs'' = Some (flatten ns)"
      and "map_of (data w) ''other_orthologs'' = Some (flatten os)"
      and "map_of (data w) ''best_human_ortholog'' = Some (flatten bs)"
    then show ?thesis
      apply -
      apply (rule exI [of _ gm], rule exI [of _ ps], rule exI [of _ hv], rule exI [of _ hs],
          rule exI [of _ nv], rule exI [of _ ns], rule exI [of _ ov], rule exI [of _ os],
          rule exI [of _ bs])
      apply (simp add: describe_def)
      done
  qed
qed

text \<open>
  For a gene with the prefix and a record identifier that is a non-empty string: an
  identifier that the store lacks ends the construction in a TypeError before any
  request; the \<open>log2(fold_change)\<close> cell of an identifier that the store has is what
  \<open>up/down\<close> holds.
\<close>

lemma python2_store_lookup:
  assumes "prefix ''WBGene'' g" and "i \<noteq> []"
  shows "(CuffLinkDatabase_get db i = None \<longrightarrow>
            WormData_init nw (Some i) g db =
              (Inl TypeError,
               \<lparr>geneID = g, dbId = Some i, data = [(''gene_id'', PStr g)], requests = []\<rparr>)) \<and>
         (\<forall>row v. CuffLinkDatabase_get db i = Some row \<and> row ''log2(fold_change)'' = Some v \<longrightarrow>
            map_of (describe (snd (WormData_init nw (Some i) g db))) ''up/down'' = Some (PStr v))"
proof (intro conjI impI allI)
  let ?s = "\<lparr>geneID = g, dbId = Some i, data = [(''gene_id'', PStr g)], requests = []\<rparr>"
  from assms(1) have g: "g \<noteq> []" by auto
  {
    assume "CuffLinkDatabase_get db i = None"
    with assms(2) have "up_down_block db (Some i) ?s = (Inl TypeError, ?s)"
      by (simp add: up_down_block_def fold_change_def raise_def)
    with assms(1) g show "WormData_init nw (Some i) g db = (Inl TypeError, ?s)"
      by (simp add: WormData_init_def populate_def fst_bind_raises)
  next
    fix row v
    assume "CuffLinkDatabase_get db i = Some row \<and> row ''log2(fold_change)'' = Some v"
    with assms(2) have ud: "up_down_block db (Some i) ?s =
        (Inr (), ?s\<lparr>data := AList.update ''up/down'' (PStr v) (data ?s)\<rparr>)"
      by (simp add: up_down_block_def fold_change_def set_item_def)
    let ?rest = "\<lambda>_::unit.
           bind (sequence_block nw g) (\<lambda>_.
           bind (description_block nw g) (\<lambda>_.
           bind (gene_models_block nw g) (\<lambda>_.
           bind (gene_class_block nw g) (\<lambda>_.
           bind (orthologs_block nw g ''human_orthologs'') (\<lambda>_.
           bind (orthologs_block nw g ''nematode_orthologs'') (\<lambda>_.
           bind (orthologs_block nw g ''other_orthologs'') (\<lambda>_.
           bind (best_human_block nw) (\<lambda>_.
           bind (joinIfExtant ''protein_id'') (\<lambda>_.
           joinIfExtant ''best_human_ortholog'')))))))))"
    have keep: "preserves (\<lambda>s. map_of (data s) ''up/down'') (?rest ())"
      by (intro preserves_bind preserves_sequence_block preserves_description_block
            preserves_gene_models_block preserves_gene_class_block preserves_orthologs_block
            preserves_best_human_block preserves_joinIfExtant) simp_all
    from assms(1) g have "snd (WormData_init nw (Some i) g db)
        = snd (bind (up_down_block db (Some i)) ?rest ?s)"
      by (simp add: WormData_init_def populate_def)
    also have "\<dots> = snd (?rest () (?s\<lparr>data := AList.update ''up/down'' (PStr v) (data ?s)\<rparr>))"
      using ud by (simp add: bind_def)
    finally show "map_of (describe (snd (WormData_init nw (Some i) g db))) ''up/down''
        = Some (PStr v)"
      using preservesD [OF keep, of "?s\<lparr>data := AList.update ''up/down'' (PStr v) (data ?s)\<rparr>"]
      by (simp add: describe_def)
  }
qed

text \<open>
  When \<open>write\<close> returns, the header list has lost \<open>db_id\<close> and \<open>up/down\<close>
  (one occurrence each) if no record carries an identifier with the \<open>XLOC\<close> prefix
  as its \<open>db_id\<close>, and is unchanged if at least one record does; the header row
  of the file is the list as it then stands, and every record is written under it.
\<close>

lemma python2_header_trimmed:
  assumes "OutputCSV_write writable self ws s = (Inr (), s')"
  shows "(if \<exists>w \<in> set ws. xloc_record w
          then objects s' (headers self) = objects s (headers self)
          else ''db_id'' \<in> set (objects s (headers self)) \<and>
               ''up/down'' \<in> set (objects s (headers self)) \<and>
               objects s' (headers self) =
                 remove1 ''up/down'' (remove1 ''db_id'' (objects s (headers self)))) \<and>
         files s' (path self) =
           Some (map PStr (objects s' (headers self)) # map (cells (objects s' (headers self))) ws)"
proof -
  from assms obtain b s1 where
    scan: "scan_ids ws True = Inr b" and
    trim: "(if b then bind (list_remove (headers self) ''db_id'') (\<lambda>_.
                     list_remove (headers self) ''up/down'')
            else ret ()) s = (Inr (), s1)" and
    writing: "bind (open_w writable (path self)) (\<lambda>_.
              bind (writeheader self) (\<lambda>_.
              for_each ws (\<lambda>wormData. writerow self (describe wormData)))) s1 = (Inr (), s')"
    by (auto simp: OutputCSV_write_def bind_returns lift_apply)
  from scan_ids_returns [OF scan] have b: "b = (\<not> (\<exists>w \<in> set ws. xloc_record w))"
    by simp
  from writing_returns [OF writing] have
    l: "objects s' = objects s1" and
    f: "files s' (path self) =
          Some (map PStr (objects s1 (headers self)) # map (cells (objects s1 (headers self))) ws)"
    by simp_all
  show ?thesis
  proof (cases b)
    case True
    with trim have "''db_id'' \<in> set (objects s (headers self))"
      and "''up/down'' \<in> set (remove1 ''db_id'' (objects s (headers self)))"
      and "objects s1 (headers self) =
             remove1 ''up/down'' (remove1 ''db_id'' (objects s (headers self)))"
      by (auto simp: bind_returns list_remove_returns)
    moreover from this(2) have "''up/down'' \<in> set (objects s (headers self))"
      by (auto dest: notin_set_remove1)
    ultimately show ?thesis using True b l f by simp
  next
    case False
    with trim have "s1 = s" by (simp add: ret_apply)
    with False b l f show ?thesis by simp
  qed
qed

subsection \<open>python3: the record after a run\<close>

text \<open>
  The statements on the scalar fields and on the store for \<^verbatim>\<open>python3/WormCSV.py\<close>,
  for every gene identifier: there \<open>gene_class\<close> holds the whole \<open>data\<close> of its
  response, and the store is consulted whatever the identifiers are.
\<close>

lemma python3_fields_scalar:
  assumes "WormData_init3 nw d g db = (Inr (), w)"
  shows "(\<forall>k v. map_of (describe w) k = Some v \<longrightarrow>
            scalar v \<or> k = ''sequence_name'' \<or> k = ''description'' \<or> k = ''gene_class'') \<and>
         (\<exists>sq dv tx gc.
            lookup nw GENE_BASE g ''sequence_name'' = Inr sq \<and>
            map_of (describe w) ''sequence_name'' = Some sq \<and>
            lookup nw GENE_BASE g ''concise_description'' = Inr dv \<and>
            py_getitem dv ''text'' = Inr tx \<and>
            map_of (describe w) ''description'' = Some tx \<and>
            lookup nw GENE_BASE g ''gene_class'' = Inr gc \<and>
            map_of (describe w) ''gene_class'' = Some gc)"
proof -
  let ?s = "\<lparr>geneID = g, dbId = d, data = [(''gene_id'', PStr g)], requests = []\<rparr>"
  from assms have run: "populate3 nw db ?s = (Inr (), w)"
    by (simp add: WormData_init3_def)
  from run show ?thesis
  proof (rule populate3_returnsE)
    fix i row v sq dv tx gm ps gc hv hs nv ns ov os bs
    assume sq: "lookup nw GENE_BASE (geneID ?s) ''sequence_name'' = Inr sq"
      and dv: "lookup nw GENE_BASE (geneID ?s) ''concise_description'' = Inr dv"
      and tx: "py_getitem dv ''text'' = Inr tx"
      and gc: "lookup nw GENE_BASE (geneID ?s) ''gene_class'' = Inr gc"
      and ud: "map_of (data w) ''up/down'' = Some (PStr v)"
      and m: "map_of (data w) ''sequence_name'' = Some sq"
        "map_of (data w) ''description'' = Some tx"
        "map_of (data w) ''protein_id'' = Some (flatten ps)"
        "map_of (data w) ''gene_class'' = Some gc"
        "map_of (data w) ''human_orthologs'' = Some (flatten hs)"
        "map_of (data w) ''nematode_orthologs'' = Some (flatten ns)"
        "map_of (data w) ''other_orthologs'' = Some (flatten os)"
        "map_of (data w) ''best_human_ortholog'' = Some (flatten bs)"
      and other: "\<And>k. k \<notin> {''up/down'', ''sequence_name'', ''description'', ''protein_id'',
              ''gene_class'', ''human_orthologs'', ''nematode_orthologs'', ''other_orthologs'',
              ''best_human_ortholog''} \<Longrightarrow> map_of (data w) k = map_of (data ?s) k"
    have fl: "scalar (flatten xs)" for xs
      by (simp add: flatten_def scalar_def)
    have "scalar v' \<or> k = ''sequence_name'' \<or> k = ''description'' \<or> k = ''gene_class''"
      if kv: "map_of (data w) k = Some v'" for k v'
    proof (cases "k \<in> {''up/down'', ''sequence_name'', ''description'', ''protein_id'',
              ''gene_class'', ''human_orthologs'', ''nematode_orthologs'', ''other_orthologs'',
              ''best_human_ortholog''}")
      case False
      from other [OF False] kv have "v' = PStr g"
        by (simp split: if_splits)
      then show ?thesis by (simp add: scalar_def)
    next
      case True
      then have "k = ''up/down'' \<or> k = ''sequence_name'' \<or> k = ''description'' \<or>
        k = ''protein_id'' \<or> k = ''gene_class'' \<or> k = ''human_orthologs'' \<or>
        k = ''nematode_orthologs'' \<or> k = ''other_orthologs'' \<or> k = ''best_human_ortholog''"
        by simp
      then show ?thesis
      proof (elim disjE)
        assume "k = ''up/down''"
        with ud kv show ?thesis by (auto simp: scalar_def)
      next
        assume "k = ''protein_id''"
        with kv m(3) have "v' = flatten ps" by simp
        then show ?thesis by (simp add: fl)
      next
        assume "k = ''human_orthologs''"
        with kv m(5) have "v' = flatten hs" by simp
        then show ?thesis by (simp add: fl)
      next
        assume "k = ''nematode_orthologs''"
        with kv m(6) have "v' = flatten ns" by simp
        then show ?thesis by (simp add: fl)
      next
        assume "k = ''other_orthologs''"
        with kv m(7) have "v' = flatten os" by simp
        then show ?thesis by (simp add: fl)
      next
        assume "k = ''best_human_ortholog''"
        with kv m(8) have "v' = flatten bs" by simp
        then show ?thesis by (simp add: fl)
      qed simp_all
    qed
    then show ?thesis
      using sq dv tx gc m(1,2,4) by (simp add: describe_def)
  qed
qed

lemma python3_store_lookup:
  "(CuffLinkDatabase_get db i = None \<longrightarrow>
      WormData_init3 nw (Some i) g db =
        (Inl TypeError,
         \<lparr>geneID = g, dbId = Some i, data = [(''gene_id'', PStr g)], requests = []\<rparr>)) \<and>
   (\<forall>row v. CuffLinkDatabase_get db i = Some row \<and> row ''log2(fold_change)'' = Some v \<longrightarrow>
      map_of (describe (snd (WormData_init3 nw (Some i) g db))) ''up/down'' = Some (PStr v))"
proof (intro conjI impI allI)
  let ?s = "\<lparr>geneID = g, dbId = Some i, data = [(''gene_id'', PStr g)], requests = []\<rparr>"
  {
    assume "CuffLinkDatabase_get db i = None"
    then have "up_down_block3 db (Some i) ?s = (Inl TypeError, ?s)"
      by (simp add: up_down_block3_def fold_change_def raise_def)
    then show "WormData_init3 nw (Some i) g db = (Inl TypeError, ?s)"
      by (simp add: WormData_init3_def populate3_def fst_bind_raises)
  next
    fix row v
    assume "CuffLinkDatabase_get db i = Some row \<and> row ''log2(fold_change)'' = Some v"
    then have ud: "up_down_block3 db (Some i) ?s =
        (Inr (), ?s\<lparr>data := AList.update ''up/down'' (PStr v) (data ?s)\<rparr>)"
      by (simp add: up_down_block3_def fold_change_def set_item_def)
    let ?rest = "\<lambda>_::unit.
           bind (sequence_block nw g) (\<lambda>_.
           bind (description_block nw g) (\<lambda>_.
           bind (gene_models_block3 nw g) (\<lambda>_.
           bind (gene_class_block3 nw g) (\<lambda>_.
           bind (orthologs_block nw g ''human_orthologs'') (\<lambda>_.
           bind (orthologs_block nw g ''nematode_orthologs'') (\<lambda>_.
           bind (orthologs_block nw g ''other_orthologs'') (\<lambda>_.
           best_human_block3 nw)))))))"
    have keep: "preserves (\<lambda>s. map_of (data s) ''up/down'') (?rest ())"
      by (intro preserves_bind preserves_sequence_block preserves_description_block
            preserves_gene_models_block3 preserves_gene_class_block3 preserves_orthologs_block
            preserves_best_human_block3) simp_all
    have "snd (WormData_init3 nw (Some i) g db)
        = snd (bind (up_down_block3 db (Some i)) ?rest ?s)"
      by (simp add: WormData_init3_def populate3_def)
    also have "\<dots> = snd (?rest () (?s\<lparr>data := AList.update ''up/down'' (PStr v) (data ?s)\<rparr>))"
      using ud by (simp add: bind_def)
    finally show "map_of (describe (snd (WormData_init3 nw (Some i) g db))) ''up/down''
        = Some (PStr v)"
      using preservesD [OF keep, of "?s\<lparr>data := AList.update ''up/down'' (PStr v) (data ?s)\<rparr>"]
      by (simp add: describe_def)
  }
qed

section \<open>The claims\<close>

text \<open>
  C1. A gene identifier that does not start with \<open>WBGene\<close> must cause no request
  and leave a field mapping with \<open>gene_id\<close> alone. python2 guards \<open>populate\<close>
  (line 178) and does so. python3 has no guard: for the gene identifier \<open>XLOC_001\<close>
  its constructor returns after fourteen requests, with all ten fields set.
\<close>

theorem python3_enriches_unprefixed_gene:
  "\<not> prefix ''WBGene'' ''XLOC_001'' \<and>
   WormData_init net_all (Some ''XLOC_001'') ''XLOC_001'' store_scenario
     = (Inr (), \<lparr>geneID = ''XLOC_001'', dbId = Some ''XLOC_001'',
                 data = [(''gene_id'', PStr ''XLOC_001'')], requests = []\<rparr>) \<and>
   WormData_init3 net_all (Some ''XLOC_001'') ''XLOC_001'' store_scenario
     = (Inr (), record_python3 ''XLOC_001'') \<and>
   length (requests (record_python3 ''XLOC_001'')) = 14 \<and>
   hd (requests (record_python3 ''XLOC_001'')) = GENE_BASE @ ''/XLOC_001/sequence_name'' \<and>
   map fst (describe (record_python3 ''XLOC_001''))
     = [''gene_id'', ''up/down'', ''sequence_name'', ''description'', ''protein_id'',
        ''gene_class'', ''human_orthologs'', ''nematode_orthologs'', ''other_orthologs'',
        ''best_human_ortholog'']"
  by (simp add: python3_run WormData_init_unprefixed record_python3_def describe_def
        endpoint_def gene_fields_def)

text \<open>
  C2, as the claim states it, fails: the request is issued before the
  \<^verbatim>\<open>try\<close>, so a request that raises is not turned into \<open>None\<close>. With the network
  down, \<open>fetch\<close> ends in the exception.
\<close>

theorem fetch_raises_when_request_fails:
  "fetch net_down GENE_BASE (PStr ''WBGene00001234'') ''sequence_name'' blank_record =
     (Inl RequestException,
      blank_record\<lparr>requests := [GENE_BASE @ ''/WBGene00001234/sequence_name'']\<rparr>)"
  by (simp add: fetch_def url_of_def requests_get_def net_down_def blank_record_def bind_def
        lift_def)

text \<open>
  C2, amended. For a string identifier, \<open>fetch\<close> returns \<open>None\<close> when the body of the
  response does not decode; when the response decodes to a mapping, it returns \<open>None\<close> if
  the field name is missing, and, if the field name is bound to a mapping, that mapping's
  \<open>data\<close> member, or \<open>None\<close> when it has none. A request that raises propagates out
  of \<open>fetch\<close>.
\<close>

theorem fetch_outcomes:
  "(nw (b @ ''/'' @ i @ ''/'' @ datum) = None \<longrightarrow>
      fst (fetch nw b (PStr i) datum s) = Inl RequestException) \<and>
   (nw (b @ ''/'' @ i @ ''/'' @ datum) = Some NotJson \<longrightarrow>
      fst (fetch nw b (PStr i) datum s) = Inr PNone) \<and>
   (nw (b @ ''/'' @ i @ ''/'' @ datum) = Some (Json (PDict kvs)) \<and> map_of kvs datum = None \<longrightarrow>
      fst (fetch nw b (PStr i) datum s) = Inr PNone) \<and>
   (nw (b @ ''/'' @ i @ ''/'' @ datum) = Some (Json (PDict kvs)) \<and>
    map_of kvs datum = Some (PDict inner) \<longrightarrow>
      fst (fetch nw b (PStr i) datum s) =
        Inr (case map_of inner ''data'' of None \<Rightarrow> PNone | Some v \<Rightarrow> v))"
proof -
  have none: "map_of kvs datum = None \<Longrightarrow> datum \<notin> fst ` set kvs"
    by (simp add: map_of_eq_None_iff)
  have some: "map_of kvs datum = Some (PDict inner) \<Longrightarrow> datum \<in> fst ` set kvs"
    by (metis map_of_eq_None_iff option.distinct(1))
  have inner: "map_of inner ''data'' = None \<longleftrightarrow> ''data'' \<notin> fst ` set inner"
    by (simp add: map_of_eq_None_iff)
  show ?thesis
    using none some inner
    by (auto simp: fetch_def url_of_def requests_get_def decode_def extract_data_def bind_def
          lift_def ret_def split: option.splits)
qed

theorem fetch_outcomes_witness:
  "fst (fetch net_down GENE_BASE (PStr ''WBGene00001234'') ''sequence_name'' blank_record)
     = Inl RequestException \<and>
   fst (fetch net_not_json GENE_BASE (PStr ''WBGene00001234'') ''sequence_name'' blank_record)
     = Inr PNone \<and>
   fst (fetch net_scenario GENE_BASE (PStr ''WBGene00001234'') ''gene_class'' blank_record)
     = Inr (PDict [(''tag'', PDict [(''label'', PStr ''abc'')])]) \<and>
   fst (fetch net_scenario GENE_BASE (PStr ''WBGene00001234'') ''sequence_name'' blank_record)
     = Inr (PStr ''abc-1'')"
  using
    fetch_outcomes [of net_down GENE_BASE "''WBGene00001234''" "''sequence_name''" blank_record]
    fetch_outcomes [of net_not_json GENE_BASE "''WBGene00001234''" "''sequence_name''" blank_record]
    fetch_outcomes [of net_scenario GENE_BASE "''WBGene00001234''" "''gene_class''" blank_record
      "[(''gene_class'', PDict [(''data'', PDict [(''tag'', PDict [(''label'', PStr ''abc'')])])])]"
      "[(''data'', PDict [(''tag'', PDict [(''label'', PStr ''abc'')])])]"]
    fetch_outcomes [of net_scenario GENE_BASE "''WBGene00001234''" "''sequence_name''" blank_record
      "[(''sequence_name'', PDict [(''data'', PStr ''abc-1'')])]"
      "[(''data'', PStr ''abc-1'')]"]
  by (simp add: scenario_defs)

text \<open>
  C3. A lookup that yields \<open>None\<close> must not abort the enrichment of the record, the
  description lookup included. Both files subscript the result of that lookup
  unguarded (line 193 of python2, line 61 of python3): when it is \<open>None\<close>, and every
  other lookup succeeds, the construction of the record ends in a TypeError.
\<close>

theorem missing_description_aborts_enrichment:
  "fst (fetch net_no_description GENE_BASE (PStr ''WBGene00001234'') ''concise_description''
          blank_record) = Inr PNone \<and>
   fst (WormData_init net_no_description (Some ''XLOC_001'') ''WBGene00001234'' store_scenario)
     = Inl TypeError \<and>
   fst (WormData_init3 net_no_description (Some ''XLOC_001'') ''WBGene00001234'' store_scenario)
     = Inl TypeError"
  by (simp add: eval_defs scenario_defs)

text \<open>
  C4, as the claim states it, fails: \<open>sequence_name\<close> is stored as \<open>fetch\<close> returned
  it. When the response carries a labelled object there, the enrichment returns and the
  field holds the object. In python3 the same goes for \<open>gene_class\<close>, which holds the
  object that an ordinary response carries.
\<close>

theorem nested_sequence_name_is_stored:
  "fst (WormData_init net_nested (Some ''XLOC_001'') ''WBGene00001234'' store_scenario) = Inr () \<and>
   map_of (describe (snd (WormData_init net_nested (Some ''XLOC_001'') ''WBGene00001234''
                            store_scenario))) ''sequence_name''
     = Some (PDict [(''label'', PStr ''abc-1'')]) \<and>
   fst (WormData_init3 net_all (Some ''XLOC_001'') ''WBGene00001234'' store_scenario) = Inr () \<and>
   map_of (describe (snd (WormData_init3 net_all (Some ''XLOC_001'') ''WBGene00001234''
                            store_scenario))) ''gene_class''
     = Some (PDict [(''tag'', PDict [(''label'', PStr ''abc'')])])"
  by (simp add: eval_defs scenario_defs)

text \<open>
  C4, amended. After the construction returns, every value of the field mapping is a
  string or \<open>None\<close>, except that \<open>sequence_name\<close>, \<open>description\<close> and
  \<open>gene_class\<close> hold what the responses carried: the \<open>data\<close> of the
  sequence_name lookup, the \<open>text\<close> member of the \<open>data\<close> of the
  concise_description lookup, and for gene_class, in python2, the \<open>label\<close> of the
  \<open>tag\<close> of the \<open>data\<close> of the lookup, if the field is set at all, in python3
  the \<open>data\<close> of the lookup.
\<close>

theorem fields_scalar_but_verbatim_ones:
  "(WormData_init nw d g db = (Inr (), w) \<longrightarrow>
      (\<forall>k v. map_of (describe w) k = Some v \<longrightarrow>
          scalar v \<or> k = ''sequence_name'' \<or> k = ''description'' \<or> k = ''gene_class'') \<and>
      (prefix ''WBGene'' g \<longrightarrow>
          (\<exists>sq dv tx gc.
             lookup nw GENE_BASE g ''sequence_name'' = Inr sq \<and>
             map_of (describe w) ''sequence_name'' = Some sq \<and>
             lookup nw GENE_BASE g ''concise_description'' = Inr dv \<and>
             py_getitem dv ''text'' = Inr tx \<and>
             map_of (describe w) ''description'' = Some tx \<and>
             lookup nw GENE_BASE g ''gene_class'' = Inr gc \<and>
             (map_of (describe w) ''gene_class'' = None \<or>
              (\<exists>t l. py_getitem gc ''tag'' = Inr t \<and> py_getitem t ''label'' = Inr l \<and>
                     map_of (describe w) ''gene_class'' = Some l))))) \<and>
   (WormData_init3 nw d g db = (Inr (), w') \<longrightarrow>
      (\<forall>k v. map_of (describe w') k = Some v \<longrightarrow>
          scalar v \<or> k = ''sequence_name'' \<or> k = ''description'' \<or> k = ''gene_class'') \<and>
      (\<exists>sq dv tx gc.
         lookup nw GENE_BASE g ''sequence_name'' = Inr sq \<and>
         map_of (describe w') ''sequence_name'' = Some sq \<and>
         lookup nw GENE_BASE g ''concise_description'' = Inr dv \<and>
         py_getitem dv ''text'' = Inr tx \<and>
         map_of (describe w') ''description'' = Some tx \<and>
         lookup nw GENE_BASE g ''gene_class'' = Inr gc \<and>
         map_of (describe w') ''gene_class'' = Some gc))"
  by (rule conjI; rule impI; (erule python2_fields_scalar | erule python3_fields_scalar))

theorem fields_scalar_but_verbatim_ones_witness:
  "WormData_init net_scenario (Some ''XLOC_001'') ''WBGene00001234'' store_scenario
     = (Inr (), record_scenario) \<and>
   list_all (\<lambda>(k, v). scalar v) (describe record_scenario) \<and>
   map_of (describe record_scenario) ''sequence_name'' = Some (PStr ''abc-1'') \<and>
   lookup net_scenario GENE_BASE ''WBGene00001234'' ''sequence_name'' = Inr (PStr ''abc-1'') \<and>
   WormData_init3 net_all (Some ''XLOC_001'') ''WBGene00001234'' store_scenario
     = (Inr (), record_python3 ''WBGene00001234'') \<and>
   list_all (\<lambda>(k, v). scalar v \<or> k = ''gene_class'')
     (describe (record_python3 ''WBGene00001234'')) \<and>
   map_of (describe (record_python3 ''WBGene00001234'')) ''gene_class''
     = Some (PDict [(''tag'', PDict [(''label'', PStr ''abc'')])]) \<and>
   lookup net_all GENE_BASE ''WBGene00001234'' ''gene_class''
     = Inr (PDict [(''tag'', PDict [(''label'', PStr ''abc'')])])"
  using
    fields_scalar_but_verbatim_ones [of net_scenario "Some ''XLOC_001''" "''WBGene00001234''"
      store_scenario record_scenario "record_python3 ''WBGene00001234''"]
    fields_scalar_but_verbatim_ones [of net_all "Some ''XLOC_001''" "''WBGene00001234''"
      store_scenario record_scenario "record_python3 ''WBGene00001234''"]
    scenario_run python3_run [of "''WBGene00001234''"]
  by (simp add: record_scenario_def record_python3_def describe_def scalar_def lookup_def
        decode_def extract_data_def scenario_defs)

text \<open>
  C5. The best_human_ortholog step must issue one \<open>best_human_match\<close> lookup for each
  protein identifier collected, the count of the identifiers and not their string form
  deciding the iteration. python2 does so (\<open>protein_id\<close> is still a list at line 251).
  python3 has joined the identifiers into one string by then (line 72) and iterates
  over that string (line 116): for a gene whose \<open>gene_models\<close> table names the one
  protein \<open>CE12345\<close>, python2 issues the one protein lookup for \<open>CE12345\<close>, python3
  seven, one for each character, and \<open>best_human_ortholog\<close> holds seven descriptions.
\<close>

theorem python3_looks_up_each_character:
  "lookup net_all GENE_BASE ''WBGene00001234'' ''gene_models''
     = Inr (PDict [(''table'', PList [PDict [(''protein'', PDict [(''id'', PStr ''CE12345'')])]])]) \<and>
   fst (WormData_init net_all (Some ''XLOC_001'') ''WBGene00001234'' store_scenario) = Inr () \<and>
   drop 7 (requests (snd (WormData_init net_all (Some ''XLOC_001'') ''WBGene00001234''
                            store_scenario)))
     = [PROTEIN_BASE @ ''/CE12345/best_human_match''] \<and>
   fst (WormData_init3 net_all (Some ''XLOC_001'') ''WBGene00001234'' store_scenario) = Inr () \<and>
   map_of (describe (snd (WormData_init3 net_all (Some ''XLOC_001'') ''WBGene00001234''
                            store_scenario))) ''protein_id'' = Some (PStr ''CE12345'') \<and>
   drop 7 (requests (snd (WormData_init3 net_all (Some ''XLOC_001'') ''WBGene00001234''
                            store_scenario)))
     = [PROTEIN_BASE @ ''/C/best_human_match'', PROTEIN_BASE @ ''/E/best_human_match'',
        PROTEIN_BASE @ ''/1/best_human_match'', PROTEIN_BASE @ ''/2/best_human_match'',
        PROTEIN_BASE @ ''/3/best_human_match'', PROTEIN_BASE @ ''/4/best_human_match'',
        PROTEIN_BASE @ ''/5/best_human_match''] \<and>
   map_of (describe (snd (WormData_init3 net_all (Some ''XLOC_001'') ''WBGene00001234''
                            store_scenario))) ''best_human_ortholog''
     = Some (PStr ''human X, human X, human X, human X, human X, human X, human X'')"
  by (simp add: python3_run python2_run_all record_python3_def describe_def endpoint_def
        gene_fields_def lookup_def decode_def extract_data_def net_all_def page_def
        model_row_def)

text \<open>
  C6. Each multi-valued field must hold the entries collected for it, joined by
  \<open>", "\<close> in the order in which the response lists them, and \<open>None\<close> when no
  entry was collected. python2 does so whenever the construction returns for a gene with
  the prefix (lemma \<open>python2_fields_joined\<close>). python3 does not. For a gene whose
  \<open>gene_models\<close> table is empty, python2 returns with \<open>None\<close> in \<open>protein_id\<close>
  and in \<open>best_human_ortholog\<close>; python3 sets \<open>protein_id\<close> to \<open>None\<close> (line
  70), iterates over it (line 116) and ends in a TypeError after the seven gene lookups,
  so no record is built. For a gene with the one protein \<open>CE12345\<close>, whose best human
  match is described as \<open>human X\<close>, python2 leaves that one entry in
  \<open>best_human_ortholog\<close>, python3 the entry seven times.
\<close>

theorem python3_fails_without_protein:
  "lookup net_no_protein GENE_BASE ''WBGene00001234'' ''gene_models''
     = Inr (PDict [(''table'', PList [])]) \<and>
   fst (WormData_init net_no_protein (Some ''XLOC_001'') ''WBGene00001234'' store_scenario)
     = Inr () \<and>
   map_of (describe (snd (WormData_init net_no_protein (Some ''XLOC_001'') ''WBGene00001234''
                            store_scenario))) ''protein_id'' = Some PNone \<and>
   map_of (describe (snd (WormData_init net_no_protein (Some ''XLOC_001'') ''WBGene00001234''
                            store_scenario))) ''best_human_ortholog'' = Some PNone \<and>
   fst (WormData_init3 net_no_protein (Some ''XLOC_001'') ''WBGene00001234'' store_scenario)
     = Inl TypeError \<and>
   length (requests (snd (WormData_init3 net_no_protein (Some ''XLOC_001'') ''WBGene00001234''
                            store_scenario))) = 7 \<and>
   lookup net_all PROTEIN_BASE ''CE12345'' ''best_human_match''
     = Inr (PDict [(''description'', PStr ''human X'')]) \<and>
   map_of (describe (snd (WormData_init net_all (Some ''XLOC_001'') ''WBGene00001234''
                            store_scenario))) ''best_human_ortholog'' = Some (PStr ''human X'') \<and>
   map_of (describe (snd (WormData_init3 net_all (Some ''XLOC_001'') ''WBGene00001234''
                            store_scenario))) ''best_human_ortholog''
     = Some (PStr ''human X, human X, human X, human X, human X, human X, human X'')"
proof -
  have a: "lookup net_no_protein GENE_BASE ''WBGene00001234'' ''gene_models''
             = Inr (PDict [(''table'', PList [])])"
    by (simp add: lookup_def decode_def extract_data_def net_no_protein_def page_no_protein_def)
  have b: "lookup net_all PROTEIN_BASE ''CE12345'' ''best_human_match''
             = Inr (PDict [(''description'', PStr ''human X'')])"
    by (simp add: lookup_def decode_def extract_data_def net_all_def page_def)
  have c: "map_of (describe (snd (WormData_init3 net_all (Some ''XLOC_001'') ''WBGene00001234''
                                    store_scenario))) ''best_human_ortholog''
             = Some (PStr ''human X, human X, human X, human X, human X, human X, human X'')"
    by (simp add: python3_run record_python3_def describe_def)
  from a b c python2_run_no_protein python3_run_no_protein python2_run_all_best
  show ?thesis by simp
qed



text \<open>
  C9, as the claim states it, fails: \<^verbatim>\<open>zip\<close> stops at the shorter of header and
  row, so a row with fewer cells than the header is loaded, with the trailing columns
  missing from its mapping.
\<close>

theorem short_row_is_loaded:
  "CuffLinkDatabase_init file_short_row = Inr store_short_row \<and>
   CuffLinkDatabase_get store_short_row ''XLOC_001''
     = Some (dict_zip [''id'', ''log2(fold_change)''] [''XLOC_001'']) \<and>
   dict_zip [''id'', ''log2(fold_change)''] [''XLOC_001''] ''log2(fold_change)'' = None"
  by (simp add: CuffLinkDatabase_init_def file_short_row_def store_short_row_def
        CuffLinkDatabase_get_def dict_zip_def)

text \<open>
  C9, amended. Loading takes the rows of the source and nothing else, so it involves no
  request. It fails with StopIteration when there is no row at all (no header), and
  with IndexError when a data row is empty. Otherwise it builds the mapping that sends
  a first cell to the header-to-cell mapping of the last row that starts with it; that
  mapping is defined on the leading header names, as many as the row has cells, and
  for distinct header names it sends each of them to the cell at its position.
\<close>

theorem load_outcomes:
  "CuffLinkDatabase_init [] = Inl StopIteration \<and>
   ([] \<in> set rows \<longrightarrow> CuffLinkDatabase_init (hs # rows) = Inl IndexError) \<and>
   ([] \<notin> set rows \<longrightarrow>
      (\<exists>d. CuffLinkDatabase_init (hs # rows) = Inr d \<and>
           (\<forall>k. CuffLinkDatabase_get d k =
                  map_option (dict_zip hs) (List.find (\<lambda>row. hd row = k) (rev rows))))) \<and>
   (\<forall>row. dom (dict_zip hs row) = set (take (length row) hs) \<and>
          (distinct hs \<longrightarrow>
             (\<forall>i. i < length hs \<and> i < length row \<longrightarrow>
                  dict_zip hs row (hs ! i) = Some (row ! i))))"
proof (intro conjI impI allI)
  show "CuffLinkDatabase_init [] = Inl StopIteration"
    by (simp add: CuffLinkDatabase_init_def)
  show "CuffLinkDatabase_init (hs # rows) = Inl IndexError" if "[] \<in> set rows"
    using that by (simp add: CuffLinkDatabase_init_def read_rows_result)
  show "\<exists>d. CuffLinkDatabase_init (hs # rows) = Inr d \<and>
           (\<forall>k. CuffLinkDatabase_get d k =
                  map_option (dict_zip hs) (List.find (\<lambda>row. hd row = k) (rev rows)))"
    if "[] \<notin> set rows"
    using that
    by (auto simp: CuffLinkDatabase_init_def read_rows_result CuffLinkDatabase_get_def dom_def
          split: option.splits)
  show "dom (dict_zip hs row) = set (take (length row) hs)" for row
    by (rule dom_dict_zip)
  show "dict_zip hs row (hs ! i) = Some (row ! i)"
    if "distinct hs" and "i < length hs \<and> i < length row" for row i
    using that by (simp add: dict_zip_nth)
qed

theorem load_outcomes_witness:
  "[] \<in> set [[''XLOC_001'', ''2.5''], []] \<and>
   CuffLinkDatabase_init ([''id'', ''log2(fold_change)''] # [[''XLOC_001'', ''2.5''], []])
     = Inl IndexError \<and>
   [] \<notin> set [[''XLOC_001'', ''2.5'']] \<and>
   CuffLinkDatabase_init file_scenario = Inr store_scenario \<and>
   CuffLinkDatabase_get store_scenario ''XLOC_001''
     = Some (dict_zip [''id'', ''log2(fold_change)''] [''XLOC_001'', ''2.5'']) \<and>
   distinct [''id'', ''log2(fold_change)''] \<and>
   dict_zip [''id'', ''log2(fold_change)''] [''XLOC_001'', ''2.5'']
     ([''id'', ''log2(fold_change)''] ! 1) = Some ([''XLOC_001'', ''2.5''] ! 1)"
  using load_outcomes [of "[[''XLOC_001'', ''2.5''], []]" "[''id'', ''log2(fold_change)'']"]
    load_outcomes [of "[[''XLOC_001'', ''2.5'']]" "[''id'', ''log2(fold_change)'']"]
  by (simp add: file_scenario_def store_scenario_def CuffLinkDatabase_init_def
        CuffLinkDatabase_get_def dict_zip_def)

text \<open>
  C7. The columns \<open>db_id\<close> and \<open>up/down\<close> must be dropped from the header exactly
  when no record carries an identifier with the \<open>XLOC\<close> prefix. python2 does so
  (lines 77-84). The \<open>write\<close> of python3 has neither the scan nor the removal (lines
  32-37): for one record that has only a gene identifier, python2 leaves the header
  without the two columns, python3 leaves it as it was, and ends in the TypeError of
  the first row written to a file opened in binary mode.
\<close>

theorem python3_write_keeps_header:
  "\<not> xloc_record (gene_only ''WBGene00001234'') \<and>
   objects world_scenario 0 = [''db_id'', ''gene_id'', ''sequence_name'', ''up/down''] \<and>
   fst (OutputCSV_write any_path (OutputCSV_init ''out.csv'' 0) [gene_only ''WBGene00001234'']
          world_scenario) = Inr () \<and>
   objects (snd (OutputCSV_write any_path (OutputCSV_init ''out.csv'' 0)
                   [gene_only ''WBGene00001234''] world_scenario)) 0
     = [''gene_id'', ''sequence_name''] \<and>
   fst (OutputCSV_write3 any_path (OutputCSV_init ''out.csv'' 0) [gene_only ''WBGene00001234'']
          world_scenario) = Inl TypeError \<and>
   objects (snd (OutputCSV_write3 any_path (OutputCSV_init ''out.csv'' 0)
                   [gene_only ''WBGene00001234''] world_scenario)) 0
     = [''db_id'', ''gene_id'', ''sequence_name'', ''up/down'']"
proof -
  have x: "\<not> xloc_record (gene_only ''WBGene00001234'')"
    by (simp add: xloc_record_def gene_only_def describe_def)
  have h: "objects world_scenario 0 = [''db_id'', ''gene_id'', ''sequence_name'', ''up/down'']"
    by (simp add: world_scenario_def header_scenario_def)
  have e: "fst (OutputCSV_write3 any_path (OutputCSV_init ''out.csv'' 0)
                  [gene_only ''WBGene00001234''] world_scenario) = Inl TypeError"
    by (simp add: python3_write_run)
  have k: "objects (snd (OutputCSV_write3 any_path (OutputCSV_init ''out.csv'' 0)
                           [gene_only ''WBGene00001234''] world_scenario)) 0
             = objects world_scenario 0"
    by (simp add: python3_write_run)
  from x h e k python2_write_run show ?thesis
    by simp
qed

text \<open>
  C10. The writer holds the reference the caller passed to the constructor. When the
  scan of the records leaves \<open>exclusivelyWBIds\<close> set and the list has both columns,
  then after \<open>write\<close>, however it ends, the list behind that reference is the
  caller's list without \<open>db_id\<close> and \<open>up/down\<close>, two entries shorter; a second
  \<open>write\<close> through the same object starts from the shortened list, and, if the names
  were not repeated in the original header and the scan again leaves
  \<open>exclusivelyWBIds\<close> set, ends in the ValueError of \<^verbatim>\<open>list.remove\<close>.
\<close>

theorem write_shortens_callers_list:
  assumes "scan_ids ws True = Inr True"
    and "''db_id'' \<in> set (objects s r)" and "''up/down'' \<in> set (objects s r)"
  shows "objects (snd (OutputCSV_write writable (OutputCSV_init p r) ws s)) r
           = remove1 ''up/down'' (remove1 ''db_id'' (objects s r)) \<and>
         length (objects (snd (OutputCSV_write writable (OutputCSV_init p r) ws s)) r) + 2
           = length (objects s r) \<and>
         (distinct (objects s r) \<and> scan_ids ws' True = Inr True \<longrightarrow>
            fst (OutputCSV_write writable' (OutputCSV_init p r) ws'
                   (snd (OutputCSV_write writable (OutputCSV_init p r) ws s))) = Inl ValueError)"
proof -
  let ?o = "OutputCSV_init p r"
  let ?L = "objects s r"
  let ?L' = "remove1 ''up/down'' (remove1 ''db_id'' ?L)"
  let ?s' = "snd (OutputCSV_write writable ?o ws s)"
  define s1 where "s1 = s\<lparr>objects := (objects s)(r := remove1 ''db_id'' ?L)\<rparr>"
  define s2 where "s2 = s1\<lparr>objects := (objects s1)(r := ?L')\<rparr>"
  have o: "headers ?o = r" "path ?o = p" by (simp_all add: OutputCSV_init_def)
  have ud: "''up/down'' \<in> set (remove1 ''db_id'' ?L)"
    using assms(3) by simp
  have trim: "bind (list_remove r ''db_id'') (\<lambda>_. list_remove r ''up/down'') s = (Inr (), s2)"
    using assms(2) ud by (simp add: bind_def list_remove_def s1_def s2_def)
  let ?rest = "bind (open_w writable (path ?o)) (\<lambda>_.
               bind (writeheader ?o) (\<lambda>_.
               for_each ws (\<lambda>wormData. writerow ?o (describe wormData))))"
  have "?s' = snd (?rest s2)"
    using assms(1) trim by (simp add: OutputCSV_write_def o bind_def lift_def)
  then have "objects ?s' = objects s2"
    using preservesD [OF preserves_writing, of writable ?o ws s2] by simp
  then have L': "objects ?s' r = ?L'"
    by (simp add: s2_def s1_def)
  have len: "length ?L' + 2 = length ?L"
    using assms(2) ud by (simp add: length_remove1) (cases ?L; simp; cases "tl ?L"; auto)
  have again: "fst (OutputCSV_write writable' ?o ws' ?s') = Inl ValueError"
    if d: "distinct ?L" and scan: "scan_ids ws' True = Inr True"
  proof -
    from d have "''db_id'' \<notin> set ?L'" by simp
    with L' have "list_remove r ''db_id'' ?s' = (Inl ValueError, ?s')"
      by (simp add: list_remove_def)
    with scan show ?thesis
      by (simp add: OutputCSV_write_def o bind_def lift_def)
  qed
  from L' len again show ?thesis by simp
qed

theorem write_shortens_callers_list_witness:
  "scan_ids [gene_only ''WBGene00001234''] True = Inr True \<and>
   ''db_id'' \<in> set (objects world_scenario 0) \<and> ''up/down'' \<in> set (objects world_scenario 0) \<and>
   distinct (objects world_scenario 0) \<and>
   objects world_scenario 0 = [''db_id'', ''gene_id'', ''sequence_name'', ''up/down''] \<and>
   objects (snd (OutputCSV_write any_path (OutputCSV_init ''out.csv'' 0)
                   [gene_only ''WBGene00001234''] world_scenario)) 0
     = [''gene_id'', ''sequence_name''] \<and>
   fst (OutputCSV_write any_path (OutputCSV_init ''out.csv'' 0) [gene_only ''WBGene00001234'']
          (snd (OutputCSV_write any_path (OutputCSV_init ''out.csv'' 0)
                  [gene_only ''WBGene00001234''] world_scenario))) = Inl ValueError"
proof -
  have a: "scan_ids [gene_only ''WBGene00001234''] True = Inr True"
    by (simp add: gene_only_def describe_def)
  have h: "objects world_scenario 0 = [''db_id'', ''gene_id'', ''sequence_name'', ''up/down'']"
    by (simp add: world_scenario_def header_scenario_def)
  have b: "''db_id'' \<in> set (objects world_scenario 0)"
    and c: "''up/down'' \<in> set (objects world_scenario 0)"
    and d: "distinct (objects world_scenario 0)"
    by (simp_all add: h)
  from write_shortens_callers_list [OF a b c, of any_path "''out.csv''"
         "[gene_only ''WBGene00001234'']" any_path] a b c d h
  show ?thesis by simp
qed

end
